theory Spec2Isabelle
  imports Complex_Main
begin

section \<open>Values that cross the HTTP boundary\<close>

text \<open>
  A request body is whatever \<open>express.json()\<close> hands to the route: a JSON value. JavaScript
  numbers that come out of a JSON text are finite, so they are kept as rationals. A property
  lookup on a parsed object sees the last occurrence of a repeated key, as \<open>JSON.parse\<close> does.
\<close>

datatype json =
    JNull
  | JBool bool
  | JNum rat
  | JStr string
  | JArr "json list"
  | JObj "(string \<times> json) list"

definition js_get :: "(string \<times> json) list \<Rightarrow> string \<Rightarrow> json option" where
  "js_get fs k = map_of (rev fs) k"

text \<open>
  The query schemas declare \<open>page\<close> and \<open>limit\<close> as \<open>z.coerce.number()\<close>: the raw parameter
  \<open>v\<close> is first turned into \<open>Number(v)\<close>. That coercion belongs to the JavaScript runtime; the
  model starts from its result, which is \<open>NaN\<close>, an infinity, or a finite number.
\<close>

datatype jsnumber = NaN | Infinite | Finite rat

record query =
  q_page :: "jsnumber option"
  q_limit :: "jsnumber option"
  q_rest :: "(string \<times> json) list"

type_synonym timestamp = nat

section \<open>The validation primitives used by the schemas\<close>

text \<open>
  The parsing engine of the schema library is an external collaborator. Each combinator below
  stands for one method of a schema declaration in \<open>src/schemas\<close>; a schema is then written
  with them exactly as declared. \<open>Issue\<close> is a failed check, \<open>Parsed v\<close> the typed value.
\<close>

datatype 'a zod = Issue | Parsed 'a

definition isInteger :: "rat \<Rightarrow> bool" where
  "isInteger r = (of_int \<lfloor>r\<rfloor> = r)"

definition z_string :: "nat \<Rightarrow> nat \<Rightarrow> json \<Rightarrow> string zod" where
  "z_string lo hi j =
     (case j of
        JStr s \<Rightarrow> if lo \<le> length s \<and> length s \<le> hi then Parsed s else Issue
      | _ \<Rightarrow> Issue)"

definition z_number_int :: "(int \<Rightarrow> bool) \<Rightarrow> json \<Rightarrow> int zod" where
  "z_number_int ok j =
     (case j of
        JNum r \<Rightarrow> if isInteger r \<and> ok \<lfloor>r\<rfloor> then Parsed \<lfloor>r\<rfloor> else Issue
      | _ \<Rightarrow> Issue)"

definition z_coerce_number_int :: "(int \<Rightarrow> bool) \<Rightarrow> jsnumber \<Rightarrow> int zod" where
  "z_coerce_number_int ok n =
     (case n of
        Finite r \<Rightarrow> if isInteger r \<and> ok \<lfloor>r\<rfloor> then Parsed \<lfloor>r\<rfloor> else Issue
      | _ \<Rightarrow> Issue)"

definition z_enum :: "string list \<Rightarrow> json \<Rightarrow> string zod" where
  "z_enum vs j =
     (case j of
        JStr s \<Rightarrow> if s \<in> set vs then Parsed s else Issue
      | _ \<Rightarrow> Issue)"

text \<open>
  The format checks \<open>uuid()\<close> and \<open>datetime()\<close> are regular expressions of the library. The
  model takes their shapes: five groups of 8, 4, 4, 4 and 12 hexadecimal digits joined by
  hyphens, and \<open>YYYY-MM-DDThh:mm:ss\<close> with an optional fraction and a final \<open>Z\<close>. String
  lengths count the characters of the model's strings.
\<close>

definition is_hex :: "char \<Rightarrow> bool" where
  "is_hex c = (c \<in> set ''0123456789abcdefABCDEF'')"

fun hex_groups :: "nat list \<Rightarrow> string \<Rightarrow> bool" where
  "hex_groups [] s = (s = [])"
| "hex_groups [n] s = (length s = n \<and> list_all is_hex s)"
| "hex_groups (n # ns) s =
     (length (take n s) = n \<and> list_all is_hex (take n s) \<and>
      (case drop n s of
         [] \<Rightarrow> False
       | c # rest \<Rightarrow> c = CHR ''-'' \<and> hex_groups ns rest))"

definition is_uuid :: "string \<Rightarrow> bool" where
  "is_uuid s = hex_groups [8, 4, 4, 4, 12] s"

definition z_uuid :: "json \<Rightarrow> string zod" where
  "z_uuid j = (case j of JStr s \<Rightarrow> if is_uuid s then Parsed s else Issue | _ \<Rightarrow> Issue)"

definition is_digit :: "char \<Rightarrow> bool" where
  "is_digit c = (c \<in> set ''0123456789'')"

fun matches :: "string \<Rightarrow> string \<Rightarrow> bool" where
  "matches [] s = (s = [])"
| "matches (p # ps) [] = False"
| "matches (p # ps) (c # cs) =
     ((if p = CHR ''d'' then is_digit c else c = p) \<and> matches ps cs)"

definition is_datetime :: "string \<Rightarrow> bool" where
  "is_datetime s =
     (matches ''dddd-dd-ddTdd:dd:ddZ'' s \<or>
      (matches ''dddd-dd-ddTdd:dd:dd.'' (take 20 s) \<and> 21 < length s \<and>
       list_all is_digit (butlast (drop 20 s)) \<and> last s = CHR ''Z''))"

definition z_datetime :: "json \<Rightarrow> string zod" where
  "z_datetime j = (case j of JStr s \<Rightarrow> if is_datetime s then Parsed s else Issue | _ \<Rightarrow> Issue)"

text \<open>Wrappers: a field may be required, \<open>.optional()\<close>, \<open>.nullable()\<close> or \<open>.default(d)\<close>.
  An absent key is \<open>None\<close> on the input side (JavaScript's \<open>undefined\<close>).\<close>

definition z_required :: "('i \<Rightarrow> 'a zod) \<Rightarrow> 'i option \<Rightarrow> 'a zod" where
  "z_required v x = (case x of None \<Rightarrow> Issue | Some j \<Rightarrow> v j)"

definition z_optional :: "('i \<Rightarrow> 'a zod) \<Rightarrow> 'i option \<Rightarrow> 'a option zod" where
  "z_optional v x =
     (case x of
        None \<Rightarrow> Parsed None
      | Some j \<Rightarrow> (case v j of Issue \<Rightarrow> Issue | Parsed a \<Rightarrow> Parsed (Some a)))"

definition z_nullable :: "(json \<Rightarrow> 'a zod) \<Rightarrow> json \<Rightarrow> 'a option zod" where
  "z_nullable v j =
     (if j = JNull then Parsed None
      else (case v j of Issue \<Rightarrow> Issue | Parsed a \<Rightarrow> Parsed (Some a)))"

definition z_default :: "'a \<Rightarrow> ('i \<Rightarrow> 'a zod) \<Rightarrow> 'i option \<Rightarrow> 'a zod" where
  "z_default d v x = (case x of None \<Rightarrow> Parsed d | Some j \<Rightarrow> v j)"

text \<open>\<open>bad k r\<close> contributes the field name \<open>k\<close> to the \<open>fieldErrors\<close> of a failed parse.\<close>

definition bad :: "string \<Rightarrow> 'a zod \<Rightarrow> string list" where
  "bad k r = (case r of Issue \<Rightarrow> [k] | Parsed _ \<Rightarrow> [])"

section \<open>Entities\<close>

text \<open>
  Server-side timestamps are \<open>new Date().toISOString()\<close>; an entity keeps the clock reading
  that the string renders. \<open>completedAt\<close> of a brew only ever comes from the client and is
  kept as the string received. Enum values are the strings of the declaration.
\<close>

record Teapot =
  pot_id :: string
  pot_name :: string
  pot_material :: string
  pot_capacityMl :: int
  pot_style :: string
  pot_description :: "string option"
  pot_createdAt :: timestamp
  pot_updatedAt :: timestamp

record Tea =
  tea_id :: string
  tea_name :: string
  tea_type :: string
  tea_origin :: "string option"
  tea_caffeineLevel :: string
  tea_steepTempCelsius :: int
  tea_steepTimeSeconds :: int
  tea_description :: "string option"
  tea_createdAt :: timestamp
  tea_updatedAt :: timestamp

record Brew =
  brew_id :: string
  brew_teapotId :: string
  brew_teaId :: string
  brew_status :: string
  brew_waterTempCelsius :: int
  brew_notes :: "string option"
  brew_startedAt :: timestamp
  brew_completedAt :: "string option"
  brew_createdAt :: timestamp
  brew_updatedAt :: timestamp

record Steep =
  steep_id :: string
  brewId :: string
  steepNumber :: nat
  durationSeconds :: int
  rating :: "int option"
  steep_notes :: "string option"
  steep_createdAt :: timestamp

section \<open>Schemas\<close>

text \<open>
  Every schema is a \<open>z.object\<close>: a body that is not an object fails with no field errors, unknown
  keys are stripped, and the result is either the field names that failed or the typed value.
  A field that is \<open>.optional()\<close> and absent stays absent in the typed value (\<open>None\<close>).
\<close>

definition TeapotMaterialSchema :: "json \<Rightarrow> string zod" where
  "TeapotMaterialSchema =
     z_enum [''ceramic'', ''cast-iron'', ''glass'', ''porcelain'', ''clay'', ''stainless-steel'']"

definition TeapotStyleSchema :: "json \<Rightarrow> string zod" where
  "TeapotStyleSchema =
     z_enum [''kyusu'', ''gaiwan'', ''english'', ''moroccan'', ''turkish'', ''yixing'']"

definition TeaTypeSchema :: "json \<Rightarrow> string zod" where
  "TeaTypeSchema =
     z_enum [''green'', ''black'', ''oolong'', ''white'', ''puerh'', ''herbal'', ''rooibos'']"

definition CaffeineLevelSchema :: "json \<Rightarrow> string zod" where
  "CaffeineLevelSchema = z_enum [''none'', ''low'', ''medium'', ''high'']"

definition BrewStatusSchema :: "json \<Rightarrow> string zod" where
  "BrewStatusSchema = z_enum [''preparing'', ''steeping'', ''ready'', ''served'', ''cold'']"

subsection \<open>Teapot\<close>

record TeapotInput =
  in_name :: string
  in_material :: string
  in_capacityMl :: int
  in_style :: string
  in_description :: "string option"

record PatchTeapot =
  p_name :: "string option"
  p_material :: "string option"
  p_capacityMl :: "int option"
  p_style :: "string option"
  p_description :: "string option option"

definition CreateTeapotSchema :: "json \<Rightarrow> string list + TeapotInput" where
  "CreateTeapotSchema body =
     (case body of
        JObj fs \<Rightarrow>
          (case (z_required (z_string 1 100) (js_get fs ''name''),
                 z_required TeapotMaterialSchema (js_get fs ''material''),
                 z_required (z_number_int (\<lambda>n. 0 < n \<and> n \<le> 5000)) (js_get fs ''capacityMl''),
                 z_default ''english'' TeapotStyleSchema (js_get fs ''style''),
                 z_default None (z_nullable (z_string 0 500)) (js_get fs ''description'')) of
             (Parsed n, Parsed m, Parsed c, Parsed s, Parsed d) \<Rightarrow>
               Inr \<lparr>in_name = n, in_material = m, in_capacityMl = c, in_style = s,
                    in_description = d\<rparr>
           | (n, m, c, s, d) \<Rightarrow>
               Inl (bad ''name'' n @ bad ''material'' m @ bad ''capacityMl'' c @
                    bad ''style'' s @ bad ''description'' d))
      | _ \<Rightarrow> Inl [])"

definition UpdateTeapotSchema :: "json \<Rightarrow> string list + TeapotInput" where
  "UpdateTeapotSchema body =
     (case body of
        JObj fs \<Rightarrow>
          (case (z_required (z_string 1 100) (js_get fs ''name''),
                 z_required TeapotMaterialSchema (js_get fs ''material''),
                 z_required (z_number_int (\<lambda>n. 0 < n \<and> n \<le> 5000)) (js_get fs ''capacityMl''),
                 z_required TeapotStyleSchema (js_get fs ''style''),
                 z_required (z_nullable (z_string 0 500)) (js_get fs ''description'')) of
             (Parsed n, Parsed m, Parsed c, Parsed s, Parsed d) \<Rightarrow>
               Inr \<lparr>in_name = n, in_material = m, in_capacityMl = c, in_style = s,
                    in_description = d\<rparr>
           | (n, m, c, s, d) \<Rightarrow>
               Inl (bad ''name'' n @ bad ''material'' m @ bad ''capacityMl'' c @
                    bad ''style'' s @ bad ''description'' d))
      | _ \<Rightarrow> Inl [])"

definition PatchTeapotSchema :: "json \<Rightarrow> string list + PatchTeapot" where
  "PatchTeapotSchema body =
     (case body of
        JObj fs \<Rightarrow>
          (case (z_optional (z_string 1 100) (js_get fs ''name''),
                 z_optional TeapotMaterialSchema (js_get fs ''material''),
                 z_optional (z_number_int (\<lambda>n. 0 < n \<and> n \<le> 5000)) (js_get fs ''capacityMl''),
                 z_optional TeapotStyleSchema (js_get fs ''style''),
                 z_optional (z_nullable (z_string 0 500)) (js_get fs ''description'')) of
             (Parsed n, Parsed m, Parsed c, Parsed s, Parsed d) \<Rightarrow>
               Inr \<lparr>p_name = n, p_material = m, p_capacityMl = c, p_style = s,
                    p_description = d\<rparr>
           | (n, m, c, s, d) \<Rightarrow>
               Inl (bad ''name'' n @ bad ''material'' m @ bad ''capacityMl'' c @
                    bad ''style'' s @ bad ''description'' d))
      | _ \<Rightarrow> Inl [])"

subsection \<open>Tea\<close>

record TeaInput =
  ti_name :: string
  ti_type :: string
  ti_origin :: "string option"
  ti_caffeineLevel :: string
  ti_steepTempCelsius :: int
  ti_steepTimeSeconds :: int
  ti_description :: "string option"

record PatchTea =
  pt_name :: "string option"
  pt_type :: "string option"
  pt_origin :: "string option"
  pt_caffeineLevel :: "string option"
  pt_steepTempCelsius :: "int option"
  pt_steepTimeSeconds :: "int option"
  pt_description :: "string option option"

definition CreateTeaSchema :: "json \<Rightarrow> string list + TeaInput" where
  "CreateTeaSchema body =
     (case body of
        JObj fs \<Rightarrow>
          (case (z_required (z_string 1 100) (js_get fs ''name''),
                 z_required TeaTypeSchema (js_get fs ''type''),
                 z_optional (z_string 0 100) (js_get fs ''origin''),
                 z_default ''medium'' CaffeineLevelSchema (js_get fs ''caffeineLevel''),
                 z_required (z_number_int (\<lambda>n. 60 \<le> n \<and> n \<le> 100))
                   (js_get fs ''steepTempCelsius''),
                 z_required (z_number_int (\<lambda>n. 0 < n \<and> n \<le> 600))
                   (js_get fs ''steepTimeSeconds''),
                 z_default None (z_nullable (z_string 0 1000)) (js_get fs ''description'')) of
             (Parsed n, Parsed t, Parsed og, Parsed c, Parsed te, Parsed ti, Parsed d) \<Rightarrow>
               Inr \<lparr>ti_name = n, ti_type = t, ti_origin = og, ti_caffeineLevel = c,
                    ti_steepTempCelsius = te, ti_steepTimeSeconds = ti, ti_description = d\<rparr>
           | (n, t, og, c, te, ti, d) \<Rightarrow>
               Inl (bad ''name'' n @ bad ''type'' t @ bad ''origin'' og @
                    bad ''caffeineLevel'' c @ bad ''steepTempCelsius'' te @
                    bad ''steepTimeSeconds'' ti @ bad ''description'' d))
      | _ \<Rightarrow> Inl [])"

definition UpdateTeaSchema :: "json \<Rightarrow> string list + TeaInput" where
  "UpdateTeaSchema body =
     (case body of
        JObj fs \<Rightarrow>
          (case (z_required (z_string 1 100) (js_get fs ''name''),
                 z_required TeaTypeSchema (js_get fs ''type''),
                 z_optional (z_string 0 100) (js_get fs ''origin''),
                 z_required CaffeineLevelSchema (js_get fs ''caffeineLevel''),
                 z_required (z_number_int (\<lambda>n. 60 \<le> n \<and> n \<le> 100))
                   (js_get fs ''steepTempCelsius''),
                 z_required (z_number_int (\<lambda>n. 0 < n \<and> n \<le> 600))
                   (js_get fs ''steepTimeSeconds''),
                 z_required (z_nullable (z_string 0 1000)) (js_get fs ''description'')) of
             (Parsed n, Parsed t, Parsed og, Parsed c, Parsed te, Parsed ti, Parsed d) \<Rightarrow>
               Inr \<lparr>ti_name = n, ti_type = t, ti_origin = og, ti_caffeineLevel = c,
                    ti_steepTempCelsius = te, ti_steepTimeSeconds = ti, ti_description = d\<rparr>
           | (n, t, og, c, te, ti, d) \<Rightarrow>
               Inl (bad ''name'' n @ bad ''type'' t @ bad ''origin'' og @
                    bad ''caffeineLevel'' c @ bad ''steepTempCelsius'' te @
                    bad ''steepTimeSeconds'' ti @ bad ''description'' d))
      | _ \<Rightarrow> Inl [])"

definition PatchTeaSchema :: "json \<Rightarrow> string list + PatchTea" where
  "PatchTeaSchema body =
     (case body of
        JObj fs \<Rightarrow>
          (case (z_optional (z_string 1 100) (js_get fs ''name''),
                 z_optional TeaTypeSchema (js_get fs ''type''),
                 z_optional (z_string 0 100) (js_get fs ''origin''),
                 z_optional CaffeineLevelSchema (js_get fs ''caffeineLevel''),
                 z_optional (z_number_int (\<lambda>n. 60 \<le> n \<and> n \<le> 100))
                   (js_get fs ''steepTempCelsius''),
                 z_optional (z_number_int (\<lambda>n. 0 < n \<and> n \<le> 600))
                   (js_get fs ''steepTimeSeconds''),
                 z_optional (z_nullable (z_string 0 1000)) (js_get fs ''description'')) of
             (Parsed n, Parsed t, Parsed og, Parsed c, Parsed te, Parsed ti, Parsed d) \<Rightarrow>
               Inr \<lparr>pt_name = n, pt_type = t, pt_origin = og, pt_caffeineLevel = c,
                    pt_steepTempCelsius = te, pt_steepTimeSeconds = ti, pt_description = d\<rparr>
           | (n, t, og, c, te, ti, d) \<Rightarrow>
               Inl (bad ''name'' n @ bad ''type'' t @ bad ''origin'' og @
                    bad ''caffeineLevel'' c @ bad ''steepTempCelsius'' te @
                    bad ''steepTimeSeconds'' ti @ bad ''description'' d))
      | _ \<Rightarrow> Inl [])"

subsection \<open>Brew and Steep\<close>

record CreateBrew =
  cb_teapotId :: string
  cb_teaId :: string
  cb_waterTempCelsius :: "int option"
  cb_notes :: "string option"

record PatchBrew =
  pb_status :: "string option"
  pb_notes :: "string option option"
  pb_completedAt :: "string option option"

record CreateSteep =
  cs_durationSeconds :: int
  cs_rating :: "int option"
  cs_notes :: "string option"

definition CreateBrewSchema :: "json \<Rightarrow> string list + CreateBrew" where
  "CreateBrewSchema body =
     (case body of
        JObj fs \<Rightarrow>
          (case (z_required z_uuid (js_get fs ''teapotId''),
                 z_required z_uuid (js_get fs ''teaId''),
                 z_optional (z_number_int (\<lambda>n. 60 \<le> n \<and> n \<le> 100))
                   (js_get fs ''waterTempCelsius''),
                 z_default None (z_nullable (z_string 0 500)) (js_get fs ''notes'')) of
             (Parsed p, Parsed t, Parsed w, Parsed n) \<Rightarrow>
               Inr \<lparr>cb_teapotId = p, cb_teaId = t, cb_waterTempCelsius = w, cb_notes = n\<rparr>
           | (p, t, w, n) \<Rightarrow>
               Inl (bad ''teapotId'' p @ bad ''teaId'' t @ bad ''waterTempCelsius'' w @
                    bad ''notes'' n))
      | _ \<Rightarrow> Inl [])"

definition PatchBrewSchema :: "json \<Rightarrow> string list + PatchBrew" where
  "PatchBrewSchema body =
     (case body of
        JObj fs \<Rightarrow>
          (case (z_optional BrewStatusSchema (js_get fs ''status''),
                 z_optional (z_nullable (z_string 0 500)) (js_get fs ''notes''),
                 z_optional (z_nullable z_datetime) (js_get fs ''completedAt'')) of
             (Parsed s, Parsed n, Parsed c) \<Rightarrow>
               Inr \<lparr>pb_status = s, pb_notes = n, pb_completedAt = c\<rparr>
           | (s, n, c) \<Rightarrow>
               Inl (bad ''status'' s @ bad ''notes'' n @ bad ''completedAt'' c))
      | _ \<Rightarrow> Inl [])"

definition CreateSteepSchema :: "json \<Rightarrow> string list + CreateSteep" where
  "CreateSteepSchema body =
     (case body of
        JObj fs \<Rightarrow>
          (case (z_required (z_number_int (\<lambda>n. 0 < n)) (js_get fs ''durationSeconds''),
                 z_default None (z_nullable (z_number_int (\<lambda>n. 1 \<le> n \<and> n \<le> 5)))
                   (js_get fs ''rating''),
                 z_default None (z_nullable (z_string 0 200)) (js_get fs ''notes'')) of
             (Parsed d, Parsed r, Parsed n) \<Rightarrow>
               Inr \<lparr>cs_durationSeconds = d, cs_rating = r, cs_notes = n\<rparr>
           | (d, r, n) \<Rightarrow>
               Inl (bad ''durationSeconds'' d @ bad ''rating'' r @ bad ''notes'' n))
      | _ \<Rightarrow> Inl [])"

subsection \<open>Path parameters and query strings\<close>

text \<open>\<open>UuidParamSchema\<close>, \<open>BrewIdParamSchema\<close> and \<open>TeapotIdParamSchema\<close> check one path
  parameter, always a string, with \<open>z.string().uuid()\<close>; they differ in the key only.\<close>

definition UuidParamSchema :: "string \<Rightarrow> string zod" where
  "UuidParamSchema p = (if is_uuid p then Parsed p else Issue)"

record PaginationQuery =
  pq_page :: int
  pq_limit :: int

record TeapotQuery = PaginationQuery +
  tq_material :: "string option"
  tq_style :: "string option"

record TeaQuery = PaginationQuery +
  aq_type :: "string option"
  aq_caffeineLevel :: "string option"

record BrewQuery = PaginationQuery +
  bq_status :: "string option"
  bq_teapotId :: "string option"
  bq_teaId :: "string option"

definition z_page :: "jsnumber option \<Rightarrow> int zod" where
  "z_page = z_default 1 (z_coerce_number_int (\<lambda>n. 0 < n))"

definition z_limit :: "jsnumber option \<Rightarrow> int zod" where
  "z_limit = z_default 20 (z_coerce_number_int (\<lambda>n. 0 < n \<and> n \<le> 100))"

definition PaginationQuerySchema :: "query \<Rightarrow> string list + PaginationQuery" where
  "PaginationQuerySchema q =
     (case (z_page (q_page q), z_limit (q_limit q)) of
        (Parsed p, Parsed l) \<Rightarrow> Inr \<lparr>pq_page = p, pq_limit = l\<rparr>
      | (p, l) \<Rightarrow> Inl (bad ''page'' p @ bad ''limit'' l))"

definition TeapotQuerySchema :: "query \<Rightarrow> string list + TeapotQuery" where
  "TeapotQuerySchema q =
     (case (z_page (q_page q), z_limit (q_limit q),
            z_optional TeapotMaterialSchema (js_get (q_rest q) ''material''),
            z_optional TeapotStyleSchema (js_get (q_rest q) ''style'')) of
        (Parsed p, Parsed l, Parsed m, Parsed s) \<Rightarrow>
          Inr \<lparr>pq_page = p, pq_limit = l, tq_material = m, tq_style = s\<rparr>
      | (p, l, m, s) \<Rightarrow>
          Inl (bad ''page'' p @ bad ''limit'' l @ bad ''material'' m @ bad ''style'' s))"

definition TeaQuerySchema :: "query \<Rightarrow> string list + TeaQuery" where
  "TeaQuerySchema q =
     (case (z_page (q_page q), z_limit (q_limit q),
            z_optional TeaTypeSchema (js_get (q_rest q) ''type''),
            z_optional CaffeineLevelSchema (js_get (q_rest q) ''caffeineLevel'')) of
        (Parsed p, Parsed l, Parsed t, Parsed c) \<Rightarrow>
          Inr \<lparr>pq_page = p, pq_limit = l, aq_type = t, aq_caffeineLevel = c\<rparr>
      | (p, l, t, c) \<Rightarrow>
          Inl (bad ''page'' p @ bad ''limit'' l @ bad ''type'' t @ bad ''caffeineLevel'' c))"

definition BrewQuerySchema :: "query \<Rightarrow> string list + BrewQuery" where
  "BrewQuerySchema q =
     (case (z_page (q_page q), z_limit (q_limit q),
            z_optional BrewStatusSchema (js_get (q_rest q) ''status''),
            z_optional z_uuid (js_get (q_rest q) ''teapotId''),
            z_optional z_uuid (js_get (q_rest q) ''teaId'')) of
        (Parsed p, Parsed l, Parsed s, Parsed tp, Parsed te) \<Rightarrow>
          Inr \<lparr>pq_page = p, pq_limit = l, bq_status = s, bq_teapotId = tp, bq_teaId = te\<rparr>
      | (p, l, s, tp, te) \<Rightarrow>
          Inl (bad ''page'' p @ bad ''limit'' l @ bad ''status'' s @ bad ''teapotId'' tp @
               bad ''teaId'' te))"

section \<open>In-memory stores\<close>

text \<open>
  Each store is a JavaScript \<open>Map\<close> from id to entity. A \<open>Map\<close> iterates in insertion order,
  \<open>set\<close> on a key that is present replaces the value in place and on a new key appends, so a
  store is an association list with exactly these operations.
\<close>

type_synonym 'v store = "(string \<times> 'v) list"

fun store_set :: "string \<Rightarrow> 'v \<Rightarrow> 'v store \<Rightarrow> 'v store" where
  "store_set k v [] = [(k, v)]"
| "store_set k v ((k', v') # m) =
     (if k' = k then (k, v) # m else (k', v') # store_set k v m)"

definition store_get :: "'v store \<Rightarrow> string \<Rightarrow> 'v option" where
  "store_get m k = map_of m k"

definition store_has :: "'v store \<Rightarrow> string \<Rightarrow> bool" where
  "store_has m k = (k \<in> set (map fst m))"

definition store_delete :: "string \<Rightarrow> 'v store \<Rightarrow> 'v store" where
  "store_delete k m = filter (\<lambda>entry. fst entry \<noteq> k) m"

definition store_values :: "'v store \<Rightarrow> 'v list" where
  "store_values m = map snd m"

record state =
  teapots :: "Teapot store"
  teas :: "Tea store"
  brews :: "Brew store"
  steeps :: "Steep store"

text \<open>What a request reads from its environment: the value \<open>uuidv4()\<close> returns and the clock.\<close>

record env =
  uuid :: string
  now :: timestamp

section \<open>Responses\<close>

record Pagination =
  pg_page :: int
  pg_limit :: int
  pg_total :: nat
  pg_totalPages :: int

record 'a listing =
  data :: "'a list"
  pagination :: Pagination

datatype body =
    ErrorBody string string "string list option"
  | TeapotBody Teapot
  | TeaBody Tea
  | BrewBody Brew
  | BrewWithDetails Brew Teapot Tea
  | SteepBody Steep
  | TeapotList "Teapot listing"
  | TeaList "Tea listing"
  | BrewList "Brew listing"
  | SteepList "Steep listing"
  | NoBody
  | TifBody string string string
  | HealthBody string "timestamp option" "string option" "(string \<times> string) list"

datatype response = Response (res_status: nat) (res_body: body)

datatype exn = ZodError "string list"

definition validation_error :: "string \<Rightarrow> string list option \<Rightarrow> response" where
  "validation_error message details = Response 400 (ErrorBody ''VALIDATION_ERROR'' message details)"

definition not_found :: "string \<Rightarrow> response" where
  "not_found message = Response 404 (ErrorBody ''NOT_FOUND'' message None)"

section \<open>Pagination\<close>

text \<open>\<open>Array.prototype.slice\<close> on integer arguments: a negative index counts from the end and
  both ends are clamped to the array.\<close>

definition js_slice :: "'a list \<Rightarrow> int \<Rightarrow> int \<Rightarrow> 'a list" where
  "js_slice xs start fin =
     (let len = int (length xs);
          k = (if start < 0 then max (len + start) 0 else min start len);
          final = (if fin < 0 then max (len + fin) 0 else min fin len)
      in take (nat (final - k)) (drop (nat k) xs))"

text \<open>The four lines under the comment \<open>// Pagination\<close>, repeated in every list handler.\<close>

definition paginate :: "'a list \<Rightarrow> int \<Rightarrow> int \<Rightarrow> 'a listing" where
  "paginate items page limit =
     (let total = length items;
          totalPages = \<lceil>(of_nat total :: rat) / of_int limit\<rceil>;
          start = (page - 1) * limit
      in \<lparr>data = js_slice items start (start + limit),
          pagination = \<lparr>pg_page = page, pg_limit = limit, pg_total = total,
                         pg_totalPages = totalPages\<rparr>\<rparr>)"

text \<open>\<open>if (query.f) items = items.filter(x => x.f === query.f)\<close>: the filter is applied when
  the parameter is present and truthy, that is a non-empty string.\<close>

definition filter_if :: "string option \<Rightarrow> ('a \<Rightarrow> string) \<Rightarrow> 'a list \<Rightarrow> 'a list" where
  "filter_if v f items =
     (case v of
        None \<Rightarrow> items
      | Some x \<Rightarrow> if x = [] then items else filter (\<lambda>i. f i = x) items)"

section \<open>Routes: teapots\<close>

definition get_teapots :: "query \<Rightarrow> state \<Rightarrow> exn + response" where
  "get_teapots q s =
     (case TeapotQuerySchema q of
        Inl issues \<Rightarrow> Inl (ZodError issues)
      | Inr query \<Rightarrow>
          (let items = store_values (teapots s);
               items = filter_if (tq_material query) pot_material items;
               items = filter_if (tq_style query) pot_style items
           in Inr (Response 200 (TeapotList (paginate items (pq_page query) (pq_limit query))))))"

definition post_teapots :: "env \<Rightarrow> json \<Rightarrow> state \<Rightarrow> response \<times> state" where
  "post_teapots e body s =
     (case CreateTeapotSchema body of
        Inl details \<Rightarrow> (validation_error ''Invalid request body'' (Some details), s)
      | Inr d \<Rightarrow>
          (let teapot = \<lparr>pot_id = uuid e, pot_name = in_name d, pot_material = in_material d,
                         pot_capacityMl = in_capacityMl d, pot_style = in_style d,
                         pot_description = in_description d,
                         pot_createdAt = now e, pot_updatedAt = now e\<rparr>
           in (Response 201 (TeapotBody teapot),
               s\<lparr>teapots := store_set (pot_id teapot) teapot (teapots s)\<rparr>)))"

definition get_teapot :: "string \<Rightarrow> state \<Rightarrow> response" where
  "get_teapot p s =
     (case UuidParamSchema p of
        Issue \<Rightarrow> validation_error ''Invalid teapot ID format'' None
      | Parsed i \<Rightarrow>
          (case store_get (teapots s) i of
             None \<Rightarrow> not_found ''Teapot not found''
           | Some teapot \<Rightarrow> Response 200 (TeapotBody teapot)))"

definition put_teapot :: "env \<Rightarrow> string \<Rightarrow> json \<Rightarrow> state \<Rightarrow> response \<times> state" where
  "put_teapot e p body s =
     (case UuidParamSchema p of
        Issue \<Rightarrow> (validation_error ''Invalid teapot ID format'' None, s)
      | Parsed i \<Rightarrow>
          (case store_get (teapots s) i of
             None \<Rightarrow> (not_found ''Teapot not found'', s)
           | Some existing \<Rightarrow>
               (case UpdateTeapotSchema body of
                  Inl details \<Rightarrow> (validation_error ''Invalid request body'' (Some details), s)
                | Inr d \<Rightarrow>
                    (let teapot = existing
                           \<lparr>pot_name := in_name d, pot_material := in_material d,
                            pot_capacityMl := in_capacityMl d, pot_style := in_style d,
                            pot_description := in_description d, pot_updatedAt := now e\<rparr>
                     in (Response 200 (TeapotBody teapot),
                         s\<lparr>teapots := store_set (pot_id teapot) teapot (teapots s)\<rparr>)))))"

text \<open>\<open>{...existing, ...result.data, updatedAt}\<close>: a key of the parsed patch overwrites, a key
  that is absent from it leaves the existing value.\<close>

definition spread :: "'a \<Rightarrow> 'a option \<Rightarrow> 'a" where
  "spread old new = (case new of None \<Rightarrow> old | Some v \<Rightarrow> v)"

definition patch_teapot :: "env \<Rightarrow> string \<Rightarrow> json \<Rightarrow> state \<Rightarrow> response \<times> state" where
  "patch_teapot e p body s =
     (case UuidParamSchema p of
        Issue \<Rightarrow> (validation_error ''Invalid teapot ID format'' None, s)
      | Parsed i \<Rightarrow>
          (case store_get (teapots s) i of
             None \<Rightarrow> (not_found ''Teapot not found'', s)
           | Some existing \<Rightarrow>
               (case PatchTeapotSchema body of
                  Inl details \<Rightarrow> (validation_error ''Invalid request body'' (Some details), s)
                | Inr d \<Rightarrow>
                    (let teapot = existing
                           \<lparr>pot_name := spread (pot_name existing) (p_name d),
                            pot_material := spread (pot_material existing) (p_material d),
                            pot_capacityMl := spread (pot_capacityMl existing) (p_capacityMl d),
                            pot_style := spread (pot_style existing) (p_style d),
                            pot_description :=
                              spread (pot_description existing) (p_description d),
                            pot_updatedAt := now e\<rparr>
                     in (Response 200 (TeapotBody teapot),
                         s\<lparr>teapots := store_set (pot_id teapot) teapot (teapots s)\<rparr>)))))"

definition delete_teapot :: "string \<Rightarrow> state \<Rightarrow> response \<times> state" where
  "delete_teapot p s =
     (case UuidParamSchema p of
        Issue \<Rightarrow> (validation_error ''Invalid teapot ID format'' None, s)
      | Parsed i \<Rightarrow>
          if \<not> store_has (teapots s) i then (not_found ''Teapot not found'', s)
          else (Response 204 NoBody, s\<lparr>teapots := store_delete i (teapots s)\<rparr>))"

section \<open>Routes: teas\<close>

definition get_teas :: "query \<Rightarrow> state \<Rightarrow> exn + response" where
  "get_teas q s =
     (case TeaQuerySchema q of
        Inl issues \<Rightarrow> Inl (ZodError issues)
      | Inr query \<Rightarrow>
          (let items = store_values (teas s);
               items = filter_if (aq_type query) tea_type items;
               items = filter_if (aq_caffeineLevel query) tea_caffeineLevel items
           in Inr (Response 200 (TeaList (paginate items (pq_page query) (pq_limit query))))))"

definition post_teas :: "env \<Rightarrow> json \<Rightarrow> state \<Rightarrow> response \<times> state" where
  "post_teas e body s =
     (case CreateTeaSchema body of
        Inl details \<Rightarrow> (validation_error ''Invalid request body'' (Some details), s)
      | Inr d \<Rightarrow>
          (let tea = \<lparr>tea_id = uuid e, tea_name = ti_name d, tea_type = ti_type d,
                      tea_origin = ti_origin d, tea_caffeineLevel = ti_caffeineLevel d,
                      tea_steepTempCelsius = ti_steepTempCelsius d,
                      tea_steepTimeSeconds = ti_steepTimeSeconds d,
                      tea_description = ti_description d,
                      tea_createdAt = now e, tea_updatedAt = now e\<rparr>
           in (Response 201 (TeaBody tea), s\<lparr>teas := store_set (tea_id tea) tea (teas s)\<rparr>)))"

definition get_tea :: "string \<Rightarrow> state \<Rightarrow> response" where
  "get_tea p s =
     (case UuidParamSchema p of
        Issue \<Rightarrow> validation_error ''Invalid tea ID format'' None
      | Parsed i \<Rightarrow>
          (case store_get (teas s) i of
             None \<Rightarrow> not_found ''Tea not found''
           | Some tea \<Rightarrow> Response 200 (TeaBody tea)))"

definition put_tea :: "env \<Rightarrow> string \<Rightarrow> json \<Rightarrow> state \<Rightarrow> response \<times> state" where
  "put_tea e p body s =
     (case UuidParamSchema p of
        Issue \<Rightarrow> (validation_error ''Invalid tea ID format'' None, s)
      | Parsed i \<Rightarrow>
          (case store_get (teas s) i of
             None \<Rightarrow> (not_found ''Tea not found'', s)
           | Some existing \<Rightarrow>
               (case UpdateTeaSchema body of
                  Inl details \<Rightarrow> (validation_error ''Invalid request body'' (Some details), s)
                | Inr d \<Rightarrow>
                    (let tea = existing
                           \<lparr>tea_name := ti_name d, tea_type := ti_type d,
                            tea_origin :=
                              (case ti_origin d of None \<Rightarrow> tea_origin existing
                               | Some x \<Rightarrow> Some x),
                            tea_caffeineLevel := ti_caffeineLevel d,
                            tea_steepTempCelsius := ti_steepTempCelsius d,
                            tea_steepTimeSeconds := ti_steepTimeSeconds d,
                            tea_description := ti_description d, tea_updatedAt := now e\<rparr>
                     in (Response 200 (TeaBody tea),
                         s\<lparr>teas := store_set (tea_id tea) tea (teas s)\<rparr>)))))"

definition patch_tea :: "env \<Rightarrow> string \<Rightarrow> json \<Rightarrow> state \<Rightarrow> response \<times> state" where
  "patch_tea e p body s =
     (case UuidParamSchema p of
        Issue \<Rightarrow> (validation_error ''Invalid tea ID format'' None, s)
      | Parsed i \<Rightarrow>
          (case store_get (teas s) i of
             None \<Rightarrow> (not_found ''Tea not found'', s)
           | Some existing \<Rightarrow>
               (case PatchTeaSchema body of
                  Inl details \<Rightarrow> (validation_error ''Invalid request body'' (Some details), s)
                | Inr d \<Rightarrow>
                    (let tea = existing
                           \<lparr>tea_name := spread (tea_name existing) (pt_name d),
                            tea_type := spread (tea_type existing) (pt_type d),
                            tea_origin :=
                              (case pt_origin d of None \<Rightarrow> tea_origin existing
                               | Some x \<Rightarrow> Some x),
                            tea_caffeineLevel :=
                              spread (tea_caffeineLevel existing) (pt_caffeineLevel d),
                            tea_steepTempCelsius :=
                              spread (tea_steepTempCelsius existing) (pt_steepTempCelsius d),
                            tea_steepTimeSeconds :=
                              spread (tea_steepTimeSeconds existing) (pt_steepTimeSeconds d),
                            tea_description :=
                              spread (tea_description existing) (pt_description d),
                            tea_updatedAt := now e\<rparr>
                     in (Response 200 (TeaBody tea),
                         s\<lparr>teas := store_set (tea_id tea) tea (teas s)\<rparr>)))))"

definition delete_tea :: "string \<Rightarrow> state \<Rightarrow> response \<times> state" where
  "delete_tea p s =
     (case UuidParamSchema p of
        Issue \<Rightarrow> (validation_error ''Invalid tea ID format'' None, s)
      | Parsed i \<Rightarrow>
          if \<not> store_has (teas s) i then (not_found ''Tea not found'', s)
          else (Response 204 NoBody, s\<lparr>teas := store_delete i (teas s)\<rparr>))"

section \<open>Routes: brews and steeps\<close>

definition get_brews :: "query \<Rightarrow> state \<Rightarrow> exn + response" where
  "get_brews q s =
     (case BrewQuerySchema q of
        Inl issues \<Rightarrow> Inl (ZodError issues)
      | Inr query \<Rightarrow>
          (let items = store_values (brews s);
               items = filter_if (bq_status query) brew_status items;
               items = filter_if (bq_teapotId query) brew_teapotId items;
               items = filter_if (bq_teaId query) brew_teaId items
           in Inr (Response 200 (BrewList (paginate items (pq_page query) (pq_limit query))))))"

definition post_brews :: "env \<Rightarrow> json \<Rightarrow> state \<Rightarrow> response \<times> state" where
  "post_brews e body s =
     (case CreateBrewSchema body of
        Inl details \<Rightarrow> (validation_error ''Invalid request body'' (Some details), s)
      | Inr d \<Rightarrow>
          (case store_get (teapots s) (cb_teapotId d) of
             None \<Rightarrow> (validation_error ''Teapot not found'' None, s)
           | Some teapot \<Rightarrow>
               (case store_get (teas s) (cb_teaId d) of
                  None \<Rightarrow> (validation_error ''Tea not found'' None, s)
                | Some tea \<Rightarrow>
                    (let brew = \<lparr>brew_id = uuid e,
                                  brew_teapotId = cb_teapotId d,
                                  brew_teaId = cb_teaId d,
                                  brew_status = ''preparing'',
                                  brew_waterTempCelsius =
                                    (case cb_waterTempCelsius d of
                                       Some w \<Rightarrow> w
                                     | None \<Rightarrow> tea_steepTempCelsius tea),
                                  brew_notes = cb_notes d,
                                  brew_startedAt = now e,
                                  brew_completedAt = None,
                                  brew_createdAt = now e,
                                  brew_updatedAt = now e\<rparr>
                     in (Response 201 (BrewBody brew),
                         s\<lparr>brews := store_set (brew_id brew) brew (brews s)\<rparr>)))))"

definition get_brew :: "string \<Rightarrow> state \<Rightarrow> response" where
  "get_brew p s =
     (case UuidParamSchema p of
        Issue \<Rightarrow> validation_error ''Invalid brew ID format'' None
      | Parsed i \<Rightarrow>
          (case store_get (brews s) i of
             None \<Rightarrow> not_found ''Brew not found''
           | Some brew \<Rightarrow>
               (case (store_get (teapots s) (brew_teapotId brew),
                      store_get (teas s) (brew_teaId brew)) of
                  (Some teapot, Some tea) \<Rightarrow> Response 200 (BrewWithDetails brew teapot tea)
                | _ \<Rightarrow> Response 200 (BrewBody brew))))"

definition patch_brew :: "env \<Rightarrow> string \<Rightarrow> json \<Rightarrow> state \<Rightarrow> response \<times> state" where
  "patch_brew e p body s =
     (case UuidParamSchema p of
        Issue \<Rightarrow> (validation_error ''Invalid brew ID format'' None, s)
      | Parsed i \<Rightarrow>
          (case store_get (brews s) i of
             None \<Rightarrow> (not_found ''Brew not found'', s)
           | Some existing \<Rightarrow>
               (case PatchBrewSchema body of
                  Inl details \<Rightarrow> (validation_error ''Invalid request body'' (Some details), s)
                | Inr d \<Rightarrow>
                    (let brew = existing
                           \<lparr>brew_status := spread (brew_status existing) (pb_status d),
                            brew_notes := spread (brew_notes existing) (pb_notes d),
                            brew_completedAt :=
                              spread (brew_completedAt existing) (pb_completedAt d),
                            brew_updatedAt := now e\<rparr>
                     in (Response 200 (BrewBody brew),
                         s\<lparr>brews := store_set (brew_id brew) brew (brews s)\<rparr>)))))"

text \<open>
  The cascade \<open>for (const [steepId, steep] of steeps.entries()) if (steep.brewId === id)
  steeps.delete(steepId)\<close>: the entries are visited in insertion order, and deleting the entry
  being visited leaves the rest of the iteration as it was.
\<close>

fun delete_steeps_of :: "string \<Rightarrow> (string \<times> Steep) list \<Rightarrow> Steep store \<Rightarrow> Steep store" where
  "delete_steeps_of i [] m = m"
| "delete_steeps_of i ((steepId, steep) # entries) m =
     (if brewId steep = i then delete_steeps_of i entries (store_delete steepId m)
      else delete_steeps_of i entries m)"

definition delete_brew :: "string \<Rightarrow> state \<Rightarrow> response \<times> state" where
  "delete_brew p s =
     (case UuidParamSchema p of
        Issue \<Rightarrow> (validation_error ''Invalid brew ID format'' None, s)
      | Parsed i \<Rightarrow>
          if \<not> store_has (brews s) i then (not_found ''Brew not found'', s)
          else (Response 204 NoBody,
                s\<lparr>steeps := delete_steeps_of i (steeps s) (steeps s),
                  brews := store_delete i (brews s)\<rparr>))"

definition get_brew_steeps :: "string \<Rightarrow> query \<Rightarrow> state \<Rightarrow> exn + response" where
  "get_brew_steeps p q s =
     (case UuidParamSchema p of
        Issue \<Rightarrow> Inr (validation_error ''Invalid brew ID format'' None)
      | Parsed i \<Rightarrow>
          if \<not> store_has (brews s) i then Inr (not_found ''Brew not found'')
          else
            (case PaginationQuerySchema q of
               Inl issues \<Rightarrow> Inl (ZodError issues)
             | Inr query \<Rightarrow>
                 (let items = filter (\<lambda>st. brewId st = i) (store_values (steeps s));
                      items = sort_key steepNumber items
                  in Inr (Response 200
                        (SteepList (paginate items (pq_page query) (pq_limit query)))))))"

definition post_brew_steeps :: "env \<Rightarrow> string \<Rightarrow> json \<Rightarrow> state \<Rightarrow> response \<times> state" where
  "post_brew_steeps e p body s =
     (case UuidParamSchema p of
        Issue \<Rightarrow> (validation_error ''Invalid brew ID format'' None, s)
      | Parsed i \<Rightarrow>
          if \<not> store_has (brews s) i then (not_found ''Brew not found'', s)
          else
            (case CreateSteepSchema body of
               Inl details \<Rightarrow> (validation_error ''Invalid request body'' (Some details), s)
             | Inr d \<Rightarrow>
                 (let existingSteeps = filter (\<lambda>st. brewId st = i) (store_values (steeps s));
                      steep = \<lparr>steep_id = uuid e,
                               brewId = i,
                               steepNumber = length existingSteeps + 1,
                               durationSeconds = cs_durationSeconds d,
                               rating = cs_rating d,
                               steep_notes = cs_notes d,
                               steep_createdAt = now e\<rparr>
                  in (Response 201 (SteepBody steep),
                      s\<lparr>steeps := store_set (steep_id steep) steep (steeps s)\<rparr>))))"

definition getTeapotBrews :: "string \<Rightarrow> query \<Rightarrow> state \<Rightarrow> exn + response" where
  "getTeapotBrews p q s =
     (case UuidParamSchema p of
        Issue \<Rightarrow> Inr (validation_error ''Invalid teapot ID format'' None)
      | Parsed i \<Rightarrow>
          if \<not> store_has (teapots s) i then Inr (not_found ''Teapot not found'')
          else
            (case PaginationQuerySchema q of
               Inl issues \<Rightarrow> Inl (ZodError issues)
             | Inr query \<Rightarrow>
                 (let items = filter (\<lambda>b. brew_teapotId b = i) (store_values (brews s))
                  in Inr (Response 200
                        (BrewList (paginate items (pq_page query) (pq_limit query)))))))"

section \<open>The application\<close>

text \<open>
  One constructor per route of \<open>routes/index.ts\<close>; \<open>Unmatched method path\<close> is any other
  request. A route handler that throws is caught by the router and handed to the error
  middleware of \<open>createApp\<close>, which answers 500; a route that is not matched reaches the 404
  middleware.
\<close>

datatype request =
    GET_teapots query
  | POST_teapots json
  | GET_teapot string
  | PUT_teapot string json
  | PATCH_teapot string json
  | DELETE_teapot string
  | GET_teapot_brews string query
  | GET_teas query
  | POST_teas json
  | GET_tea string
  | PUT_tea string json
  | PATCH_tea string json
  | DELETE_tea string
  | GET_brews query
  | POST_brews json
  | GET_brew string
  | PATCH_brew string json
  | DELETE_brew string
  | GET_brew_steeps string query
  | POST_brew_steeps string json
  | GET_health
  | GET_health_live
  | GET_health_ready
  | GET_brew_signature
  | Unmatched string string

definition reading :: "state \<Rightarrow> exn + response \<Rightarrow> exn + response \<times> state" where
  "reading s r = (case r of Inl err \<Rightarrow> Inl err | Inr res \<Rightarrow> Inr (res, s))"

fun routes :: "env \<Rightarrow> request \<Rightarrow> state \<Rightarrow> exn + response \<times> state" where
  "routes e (GET_teapots q) s = reading s (get_teapots q s)"
| "routes e (POST_teapots b) s = Inr (post_teapots e b s)"
| "routes e (GET_teapot p) s = Inr (get_teapot p s, s)"
| "routes e (PUT_teapot p b) s = Inr (put_teapot e p b s)"
| "routes e (PATCH_teapot p b) s = Inr (patch_teapot e p b s)"
| "routes e (DELETE_teapot p) s = Inr (delete_teapot p s)"
| "routes e (GET_teapot_brews p q) s = reading s (getTeapotBrews p q s)"
| "routes e (GET_teas q) s = reading s (get_teas q s)"
| "routes e (POST_teas b) s = Inr (post_teas e b s)"
| "routes e (GET_tea p) s = Inr (get_tea p s, s)"
| "routes e (PUT_tea p b) s = Inr (put_tea e p b s)"
| "routes e (PATCH_tea p b) s = Inr (patch_tea e p b s)"
| "routes e (DELETE_tea p) s = Inr (delete_tea p s)"
| "routes e (GET_brews q) s = reading s (get_brews q s)"
| "routes e (POST_brews b) s = Inr (post_brews e b s)"
| "routes e (GET_brew p) s = Inr (get_brew p s, s)"
| "routes e (PATCH_brew p b) s = Inr (patch_brew e p b s)"
| "routes e (DELETE_brew p) s = Inr (delete_brew p s)"
| "routes e (GET_brew_steeps p q) s = reading s (get_brew_steeps p q s)"
| "routes e (POST_brew_steeps p b) s = Inr (post_brew_steeps e p b s)"
| "routes e GET_health s =
     Inr (Response 200 (HealthBody ''ok'' (Some (now e)) (Some ''1.0.0'') []), s)"
| "routes e GET_health_live s = Inr (Response 200 (HealthBody ''ok'' None None []), s)"
| "routes e GET_health_ready s =
     (let checks = [(''memory'', ''ok''), (''database'', ''ok'')];
          allOk = list_all (\<lambda>c. snd c = ''ok'') checks
      in Inr (Response (if allOk then 200 else 503)
                (HealthBody (if allOk then ''ok'' else ''degraded'') (Some (now e)) None checks),
              s))"
| "routes e GET_brew_signature s =
     Inr (Response 418
            (TifBody ''I'm a teapot'' ''This server is TIF-compliant and cannot brew coffee''
               ''https://teapotframework.dev''), s)"
| "routes e (Unmatched method path) s =
     Inr (not_found (''Cannot '' @ method @ '' '' @ path), s)"

definition createApp :: "env \<Rightarrow> request \<Rightarrow> state \<Rightarrow> response \<times> state" where
  "createApp e r s =
     (case routes e r s of
        Inl err \<Rightarrow>
          (Response 500 (ErrorBody ''INTERNAL_ERROR'' ''An unexpected error occurred'' None), s)
      | Inr answer \<Rightarrow> answer)"

section \<open>Runs of the application\<close>

definition empty_state :: state where
  "empty_state = \<lparr>teapots = [], teas = [], brews = [], steeps = []\<rparr>"

text \<open>The steeps of one brew, in the iteration order of the store (their creation order).\<close>

definition steeps_of :: "string \<Rightarrow> state \<Rightarrow> Steep list" where
  "steeps_of i s = filter (\<lambda>st. brewId st = i) (store_values (steeps s))"

text \<open>
  Requests are served one after the other, each to completion. An event is a request together
  with what it reads from the environment. \<open>uuidv4()\<close> is taken to return an id that names no
  steep yet whenever a steep is created: \<open>fresh_steep_ids\<close> says so for a whole run.
\<close>

fun run :: "state \<Rightarrow> (env \<times> request) list \<Rightarrow> state" where
  "run s [] = s"
| "run s ((e, r) # evs) = run (snd (createApp e r s)) evs"

fun creates_steep :: "request \<Rightarrow> bool" where
  "creates_steep (POST_brew_steeps p b) = True"
| "creates_steep r = False"

fun fresh_steep_ids :: "state \<Rightarrow> (env \<times> request) list \<Rightarrow> bool" where
  "fresh_steep_ids s [] = True"
| "fresh_steep_ids s ((e, r) # evs) =
     ((creates_steep r \<longrightarrow> \<not> store_has (steeps s) (uuid e)) \<and>
      fresh_steep_ids (snd (createApp e r s)) evs)"

section \<open>A sample session\<close>

text \<open>
  A session like those of the test suite: a teapot, a tea, a brew of that tea in that teapot,
  and two steeps of the brew. \<open>sample_state\<close> is the state it leaves behind; \<open>later\<close> is
  the environment of one more request and \<open>bad_page\<close> a query that asks for page 0.
\<close>

definition pot_1 :: string where
  "pot_1 = ''00000000-0000-0000-0000-0000000000a1''"

definition tea_1 :: string where
  "tea_1 = ''00000000-0000-0000-0000-0000000000b1''"

definition brew_1 :: string where
  "brew_1 = ''00000000-0000-0000-0000-0000000000c1''"

definition steep_1 :: string where
  "steep_1 = ''00000000-0000-0000-0000-0000000000d1''"

definition steep_2 :: string where
  "steep_2 = ''00000000-0000-0000-0000-0000000000d2''"

definition unknown_id :: string where
  "unknown_id = ''00000000-0000-0000-0000-000000000000''"

definition sample_teapot :: Teapot where
  "sample_teapot =
     \<lparr>pot_id = pot_1, pot_name = ''My Kyusu'', pot_material = ''clay'', pot_capacityMl = 350,
      pot_style = ''kyusu'', pot_description = None, pot_createdAt = 1, pot_updatedAt = 1\<rparr>"

definition sample_tea :: Tea where
  "sample_tea =
     \<lparr>tea_id = tea_1, tea_name = ''Sencha'', tea_type = ''green'', tea_origin = None,
      tea_caffeineLevel = ''medium'', tea_steepTempCelsius = 75, tea_steepTimeSeconds = 120,
      tea_description = None, tea_createdAt = 2, tea_updatedAt = 2\<rparr>"

definition sample_brew :: Brew where
  "sample_brew =
     \<lparr>brew_id = brew_1, brew_teapotId = pot_1, brew_teaId = tea_1, brew_status = ''preparing'',
      brew_waterTempCelsius = 75, brew_notes = None, brew_startedAt = 3,
      brew_completedAt = None, brew_createdAt = 3, brew_updatedAt = 3\<rparr>"

definition first_steep :: Steep where
  "first_steep =
     \<lparr>steep_id = steep_1, brewId = brew_1, steepNumber = 1, durationSeconds = 30,
      rating = None, steep_notes = None, steep_createdAt = 4\<rparr>"

definition second_steep :: Steep where
  "second_steep =
     \<lparr>steep_id = steep_2, brewId = brew_1, steepNumber = 2, durationSeconds = 45,
      rating = None, steep_notes = None, steep_createdAt = 5\<rparr>"

definition sample_state :: state where
  "sample_state =
     \<lparr>teapots = [(pot_1, sample_teapot)], teas = [(tea_1, sample_tea)],
      brews = [(brew_1, sample_brew)],
      steeps = [(steep_1, first_steep), (steep_2, second_steep)]\<rparr>"

definition teapot_body :: json where
  "teapot_body =
     JObj [(''name'', JStr ''My Kyusu''), (''material'', JStr ''clay''),
           (''capacityMl'', JNum 350), (''style'', JStr ''kyusu'')]"

definition tea_body :: json where
  "tea_body =
     JObj [(''name'', JStr ''Sencha''), (''type'', JStr ''green''),
           (''steepTempCelsius'', JNum 75), (''steepTimeSeconds'', JNum 120)]"

definition brew_body :: json where
  "brew_body = JObj [(''teapotId'', JStr pot_1), (''teaId'', JStr tea_1)]"

definition sample_session :: "(env \<times> request) list" where
  "sample_session =
     [(\<lparr>uuid = pot_1, now = 1\<rparr>, POST_teapots teapot_body),
      (\<lparr>uuid = tea_1, now = 2\<rparr>, POST_teas tea_body),
      (\<lparr>uuid = brew_1, now = 3\<rparr>, POST_brews brew_body),
      (\<lparr>uuid = steep_1, now = 4\<rparr>, POST_brew_steeps brew_1 (JObj [(''durationSeconds'', JNum 30)])),
      (\<lparr>uuid = steep_2, now = 5\<rparr>, POST_brew_steeps brew_1 (JObj [(''durationSeconds'', JNum 45)]))]"

definition later :: env where
  "later = \<lparr>uuid = unknown_id, now = 9\<rparr>"

definition bad_page :: query where
  "bad_page = \<lparr>q_page = Some (Finite 0), q_limit = None, q_rest = []\<rparr>"

section \<open>Facts about stores and schemas\<close>

lemma store_set_fresh: "\<not> store_has m k \<Longrightarrow> store_set k v m = m @ [(k, v)]"
  by (induction m) (auto simp: store_has_def)

lemma store_has_delete: "\<not> store_has (store_delete k m) k"
  by (auto simp: store_has_def store_delete_def)

lemma delete_steeps_of_filter:
  "delete_steeps_of i es m =
     filter (\<lambda>entry. fst entry \<notin> fst ` {x \<in> set es. brewId (snd x) = i}) m"
proof (induction es arbitrary: m)
  case Nil
  then show ?case by simp
next
  case (Cons x es)
  obtain k st where x: "x = (k, st)" by (cases x)
  let ?K = "fst ` {x \<in> set es. brewId (snd x) = i}"
  have "{y \<in> set (x # es). brewId (snd y) = i} =
        (if brewId st = i then insert (k, st) {x \<in> set es. brewId (snd x) = i}
         else {x \<in> set es. brewId (snd x) = i})"
    unfolding x by auto
  then have K: "fst ` {y \<in> set (x # es). brewId (snd y) = i} =
           (if brewId st = i then insert k ?K else ?K)"
    by (simp split: if_splits)
  show ?case
  proof (cases "brewId st = i")
    case True
    have "delete_steeps_of i (x # es) m = delete_steeps_of i es (store_delete k m)"
      using True by (simp add: x)
    also have "\<dots> = filter (\<lambda>entry. fst entry \<notin> ?K) (store_delete k m)"
      by (rule Cons.IH)
    also have "\<dots> = filter (\<lambda>entry. fst entry \<notin> insert k ?K) m"
      by (simp add: store_delete_def conj_commute)
    finally show ?thesis using True K by simp
  next
    case False
    then show ?thesis using Cons.IH K by (simp add: x)
  qed
qed

lemma cascade_removes_all:
  "(k, st) \<in> set (delete_steeps_of i m m) \<Longrightarrow> brewId st \<noteq> i"
  unfolding delete_steeps_of_filter by force

lemma cascade_keeps_others:
  assumes "distinct (map fst m)"
  shows "delete_steeps_of i m m = filter (\<lambda>entry. brewId (snd entry) \<noteq> i) m"
  unfolding delete_steeps_of_filter
proof (rule filter_cong[OF refl])
  fix x assume x: "x \<in> set m"
  show "(fst x \<notin> fst ` {x \<in> set m. brewId (snd x) = i}) = (brewId (snd x) \<noteq> i)"
  proof
    assume "fst x \<notin> fst ` {x \<in> set m. brewId (snd x) = i}"
    with x show "brewId (snd x) \<noteq> i" by force
  next
    assume n: "brewId (snd x) \<noteq> i"
    show "fst x \<notin> fst ` {x \<in> set m. brewId (snd x) = i}"
    proof
      assume "fst x \<in> fst ` {x \<in> set m. brewId (snd x) = i}"
      then obtain y where y: "y \<in> set m" "brewId (snd y) = i" "fst y = fst x" by auto
      from assms x y(1,3) have "y = x"
        by (metis eq_key_imp_eq_value prod.collapse)
      with y(2) n show False by simp
    qed
  qed
qed


lemma CreateBrewSchema_Inr:
  assumes "CreateBrewSchema body = Inr d"
  shows "\<exists>fs. body = JObj fs \<and>
           js_get fs ''teapotId'' = Some (JStr (cb_teapotId d)) \<and> is_uuid (cb_teapotId d) \<and>
           js_get fs ''teaId'' = Some (JStr (cb_teaId d)) \<and> is_uuid (cb_teaId d) \<and>
           (case js_get fs ''waterTempCelsius'' of
              None \<Rightarrow> cb_waterTempCelsius d = None
            | Some j \<Rightarrow> \<exists>w. j = JNum (of_int w) \<and> cb_waterTempCelsius d = Some w \<and>
                            60 \<le> w \<and> w \<le> 100)"
  using assms
  by (auto simp: CreateBrewSchema_def z_required_def z_optional_def z_uuid_def z_number_int_def
        isInteger_def
        split: json.splits zod.splits option.splits if_splits)







lemma z_page_range: "z_page x = Parsed p \<Longrightarrow> 1 \<le> p"
  by (auto simp: z_page_def z_default_def z_coerce_number_int_def
        split: option.splits jsnumber.splits if_splits)

lemma z_limit_range: "z_limit x = Parsed l \<Longrightarrow> 1 \<le> l \<and> l \<le> 100"
  by (auto simp: z_limit_def z_default_def z_coerce_number_int_def
        split: option.splits jsnumber.splits if_splits)

text \<open>Every query schema hands the handler a page of at least 1 and a limit from 1 to 100.\<close>

lemma query_ranges:
  "PaginationQuerySchema q = Inr pq \<Longrightarrow> 1 \<le> pq_page pq \<and> 1 \<le> pq_limit pq \<and> pq_limit pq \<le> 100"
  "TeapotQuerySchema q = Inr tq \<Longrightarrow> 1 \<le> pq_page tq \<and> 1 \<le> pq_limit tq \<and> pq_limit tq \<le> 100"
  "TeaQuerySchema q = Inr aq \<Longrightarrow> 1 \<le> pq_page aq \<and> 1 \<le> pq_limit aq \<and> pq_limit aq \<le> 100"
  "BrewQuerySchema q = Inr bq \<Longrightarrow> 1 \<le> pq_page bq \<and> 1 \<le> pq_limit bq \<and> pq_limit bq \<le> 100"
  using z_page_range[of "q_page q"] z_limit_range[of "q_limit q"]
  by (auto simp: PaginationQuerySchema_def TeapotQuerySchema_def TeaQuerySchema_def
        BrewQuerySchema_def split: zod.splits)


lemma invalid_page_or_limit:
  assumes "z_page (q_page q) = Issue \<or> z_limit (q_limit q) = Issue"
  shows "\<exists>issues. PaginationQuerySchema q = Inl issues"
    and "\<exists>issues. TeapotQuerySchema q = Inl issues"
    and "\<exists>issues. TeaQuerySchema q = Inl issues"
    and "\<exists>issues. BrewQuerySchema q = Inl issues"
  using assms
  by (auto simp: PaginationQuerySchema_def TeapotQuerySchema_def TeaQuerySchema_def
        BrewQuerySchema_def split: zod.splits)

section \<open>Facts about the sample session\<close>

lemma sample_ids:
  "is_uuid pot_1" "is_uuid tea_1" "is_uuid brew_1" "is_uuid steep_1" "is_uuid steep_2"
  "is_uuid unknown_id"
  by (simp_all add: pot_1_def tea_1_def brew_1_def steep_1_def steep_2_def unknown_id_def
        is_uuid_def is_hex_def)

lemma sample_ids_differ:
  "steep_1 \<noteq> steep_2" "steep_2 \<noteq> steep_1" "unknown_id \<noteq> brew_1" "unknown_id \<noteq> pot_1"
  "unknown_id \<noteq> tea_1" "unknown_id \<noteq> steep_1" "unknown_id \<noteq> steep_2"
  "brew_1 \<noteq> unknown_id" "pot_1 \<noteq> unknown_id" "tea_1 \<noteq> unknown_id"
  "steep_1 \<noteq> unknown_id" "steep_2 \<noteq> unknown_id"
  by (simp_all add: pot_1_def tea_1_def brew_1_def steep_1_def steep_2_def unknown_id_def)

lemma sample_bodies:
  "CreateTeapotSchema teapot_body =
     Inr \<lparr>in_name = ''My Kyusu'', in_material = ''clay'', in_capacityMl = 350,
          in_style = ''kyusu'', in_description = None\<rparr>"
  "CreateTeaSchema tea_body =
     Inr \<lparr>ti_name = ''Sencha'', ti_type = ''green'', ti_origin = None,
          ti_caffeineLevel = ''medium'', ti_steepTempCelsius = 75, ti_steepTimeSeconds = 120,
          ti_description = None\<rparr>"
  "CreateBrewSchema brew_body =
     Inr \<lparr>cb_teapotId = pot_1, cb_teaId = tea_1, cb_waterTempCelsius = None, cb_notes = None\<rparr>"
  "CreateSteepSchema (JObj [(''durationSeconds'', JNum 30)]) =
     Inr \<lparr>cs_durationSeconds = 30, cs_rating = None, cs_notes = None\<rparr>"
  "CreateSteepSchema (JObj [(''durationSeconds'', JNum 45)]) =
     Inr \<lparr>cs_durationSeconds = 45, cs_rating = None, cs_notes = None\<rparr>"
  by (simp_all add: teapot_body_def tea_body_def brew_body_def sample_ids
        CreateTeapotSchema_def CreateTeaSchema_def CreateBrewSchema_def CreateSteepSchema_def
        js_get_def z_required_def z_optional_def z_default_def z_nullable_def z_string_def
        z_number_int_def z_uuid_def z_enum_def isInteger_def
        TeapotMaterialSchema_def TeapotStyleSchema_def TeaTypeSchema_def CaffeineLevelSchema_def)

text \<open>The sample session runs without an id collision and ends in the sample state.\<close>

lemma sample_session_state: "run empty_state sample_session = sample_state"
  by (simp add: sample_session_def sample_state_def empty_state_def createApp_def
        post_teapots_def post_teas_def post_brews_def post_brew_steeps_def sample_bodies
        sample_ids UuidParamSchema_def store_get_def store_has_def store_values_def Let_def
        sample_teapot_def sample_tea_def sample_brew_def first_steep_def second_steep_def
        sample_ids_differ)

lemma sample_session_fresh: "fresh_steep_ids empty_state sample_session"
  by (simp add: sample_session_def empty_state_def createApp_def
        post_teapots_def post_teas_def post_brews_def post_brew_steeps_def sample_bodies
        sample_ids UuidParamSchema_def store_get_def store_has_def store_values_def Let_def
        sample_ids_differ)

section \<open>Deleting a brew\<close>

text \<open>
  Claim C1. For a brew that is in the brew store, \<open>DELETE /brews/:id\<close> answers 204, removes
  every steep whose \<open>brewId\<close> is the brew's id and then the brew itself, in one request.
  Afterwards the steep store holds no steep of that brew, the brew is gone, and the steep
  list of that brew answers 404, so none of its steeps can be reached. The steeps of other
  brews stay where they were (the keys of a store are distinct), and teapots and teas are
  not touched.
\<close>

theorem delete_brew_cascades:
  assumes "is_uuid i" and "store_has (brews s) i"
    and "createApp e (DELETE_brew i) s = (res, s')"
  shows "res = Response 204 NoBody \<and>
         (\<forall>st \<in> set (store_values (steeps s')). brewId st \<noteq> i) \<and>
         \<not> store_has (brews s') i \<and>
         brews s' = store_delete i (brews s) \<and>
         (distinct (map fst (steeps s)) \<longrightarrow>
            steeps s' = filter (\<lambda>entry. brewId (snd entry) \<noteq> i) (steeps s)) \<and>
         teapots s' = teapots s \<and> teas s' = teas s \<and>
         fst (createApp e' (GET_brew_steeps i q) s') =
           Response 404 (ErrorBody ''NOT_FOUND'' ''Brew not found'' None)"
proof -
  from assms have s': "s' = s\<lparr>steeps := delete_steeps_of i (steeps s) (steeps s),
                              brews := store_delete i (brews s)\<rparr>"
    and res: "res = Response 204 NoBody"
    by (auto simp: createApp_def delete_brew_def UuidParamSchema_def)
  have 1: "\<forall>st \<in> set (store_values (steeps s')). brewId st \<noteq> i"
  proof
    fix st assume "st \<in> set (store_values (steeps s'))"
    then obtain k where "(k, st) \<in> set (delete_steeps_of i (steeps s) (steeps s))"
      by (auto simp: s' store_values_def)
    then show "brewId st \<noteq> i" by (rule cascade_removes_all)
  qed
  have 2: "\<not> store_has (brews s') i" by (simp add: s' store_has_delete)
  have 3: "fst (createApp e' (GET_brew_steeps i q) s') =
           Response 404 (ErrorBody ''NOT_FOUND'' ''Brew not found'' None)"
    using assms(1) 2
    by (simp add: createApp_def get_brew_steeps_def UuidParamSchema_def reading_def not_found_def)
  have 4: "brews s' = store_delete i (brews s)" by (simp add: s')
  have 5: "distinct (map fst (steeps s)) \<longrightarrow>
            steeps s' = filter (\<lambda>entry. brewId (snd entry) \<noteq> i) (steeps s)"
    by (simp add: s' cascade_keeps_others)
  have 6: "teapots s' = teapots s" "teas s' = teas s" by (simp_all add: s')
  show ?thesis
    apply (intro conjI)
           apply (rule res)
          apply (rule 1)
         apply (rule 2)
        apply (rule 4)
       apply (rule 5)
      apply (rule 6(1))
     apply (rule 6(2))
    apply (rule 3)
    done
qed

theorem delete_brew_cascades_witness:
  "is_uuid brew_1 \<and> store_has (brews sample_state) brew_1 \<and>
   distinct (map fst (steeps sample_state)) \<and>
   length (steeps_of brew_1 sample_state) = 2 \<and>
   fst (createApp later (DELETE_brew brew_1) sample_state) = Response 204 NoBody \<and>
   steeps (snd (createApp later (DELETE_brew brew_1) sample_state)) = [] \<and>
   \<not> store_has (brews (snd (createApp later (DELETE_brew brew_1) sample_state))) brew_1"
proof -
  have h1: "is_uuid brew_1" by (rule sample_ids(3))
  have h2: "store_has (brews sample_state) brew_1"
    by (simp add: sample_state_def store_has_def)
  have h3: "createApp later (DELETE_brew brew_1) sample_state =
              (fst (createApp later (DELETE_brew brew_1) sample_state),
               snd (createApp later (DELETE_brew brew_1) sample_state))"
    by simp
  have d: "distinct (map fst (steeps sample_state))"
    by (simp add: sample_state_def sample_ids_differ)
  have n: "length (steeps_of brew_1 sample_state) = 2"
    by (simp add: steeps_of_def store_values_def sample_state_def first_steep_def
          second_steep_def)
  note c = delete_brew_cascades[OF h1 h2 h3, of later bad_page]
  from c have r: "fst (createApp later (DELETE_brew brew_1) sample_state) = Response 204 NoBody"
    by (rule conjunct1)
  from c have g: "\<not> store_has (brews (snd (createApp later (DELETE_brew brew_1) sample_state)))
                    brew_1"
    by (elim conjE)
  from c have "distinct (map fst (steeps sample_state)) \<longrightarrow>
      steeps (snd (createApp later (DELETE_brew brew_1) sample_state)) =
        filter (\<lambda>entry. brewId (snd entry) \<noteq> brew_1) (steeps sample_state)"
    by (elim conjE)
  with d have "steeps (snd (createApp later (DELETE_brew brew_1) sample_state)) =
        filter (\<lambda>entry. brewId (snd entry) \<noteq> brew_1) (steeps sample_state)"
    by (rule rev_mp)
  then have e: "steeps (snd (createApp later (DELETE_brew brew_1) sample_state)) = []"
    by (simp add: sample_state_def first_steep_def second_steep_def)
  from h1 h2 d n r e g show ?thesis by (intro conjI)
qed

section \<open>Steep numbers\<close>

text \<open>One request keeps the keys of the steep store distinct and the steeps of every brew
  numbered 1, 2, ..., in the order of the store.\<close>

lemma post_brew_steeps_cases:
  assumes "post_brew_steeps e p b s = (res, s')"
  shows "(s' = s \<and> (res_status res = 400 \<or> res_status res = 404)) \<or>
         (\<exists>d. CreateSteepSchema b = Inr d \<and> is_uuid p \<and> store_has (brews s) p \<and>
              res = Response 201 (SteepBody
                     \<lparr>steep_id = uuid e, brewId = p,
                      steepNumber = Suc (length (steeps_of p s)),
                      durationSeconds = cs_durationSeconds d, rating = cs_rating d,
                      steep_notes = cs_notes d, steep_createdAt = now e\<rparr>) \<and>
              s' = s\<lparr>steeps := store_set (uuid e)
                     \<lparr>steep_id = uuid e, brewId = p,
                      steepNumber = Suc (length (steeps_of p s)),
                      durationSeconds = cs_durationSeconds d, rating = cs_rating d,
                      steep_notes = cs_notes d, steep_createdAt = now e\<rparr> (steeps s)\<rparr>)"
  using assms
  by (auto simp: post_brew_steeps_def UuidParamSchema_def validation_error_def not_found_def
        steeps_of_def Let_def split: if_splits sum.splits)

lemma steeps_unchanged:
  assumes "\<not> creates_steep r" and "\<forall>p. r \<noteq> DELETE_brew p"
  shows "steeps (snd (createApp e r s)) = steeps s"
proof (cases r)
  case (POST_brew_steeps p b) with assms show ?thesis by simp
next
  case (DELETE_brew p) with assms show ?thesis by simp
qed (auto simp: createApp_def reading_def post_teapots_def put_teapot_def patch_teapot_def
       delete_teapot_def post_teas_def put_tea_def patch_tea_def delete_tea_def
       post_brews_def patch_brew_def Let_def
       split: sum.splits zod.splits option.splits if_splits)

lemma numbering_step:
  assumes d: "distinct (map fst (steeps s))"
    and n: "\<forall>i. map steepNumber (steeps_of i s) = [1..<Suc (length (steeps_of i s))]"
    and f: "creates_steep r \<longrightarrow> \<not> store_has (steeps s) (uuid e)"
  shows "distinct (map fst (steeps (snd (createApp e r s)))) \<and>
         (\<forall>i. map steepNumber (steeps_of i (snd (createApp e r s))) =
               [1..<Suc (length (steeps_of i (snd (createApp e r s))))])"
proof (cases r)
  case (POST_brew_steeps p b)
  obtain res s' where rs: "post_brew_steeps e p b s = (res, s')"
    by (cases "post_brew_steeps e p b s")
  then have app: "snd (createApp e r s) = s'"
    by (simp add: POST_brew_steeps createApp_def)
  from f POST_brew_steeps have fresh: "\<not> store_has (steeps s) (uuid e)" by simp
  from post_brew_steeps_cases[OF rs] show ?thesis
  proof
    assume "s' = s \<and> (res_status res = 400 \<or> res_status res = 404)"
    with app d n show ?thesis by simp
  next
    assume "\<exists>d. CreateSteepSchema b = Inr d \<and> is_uuid p \<and> store_has (brews s) p \<and>
              res = Response 201 (SteepBody
                     \<lparr>steep_id = uuid e, brewId = p,
                      steepNumber = Suc (length (steeps_of p s)),
                      durationSeconds = cs_durationSeconds d, rating = cs_rating d,
                      steep_notes = cs_notes d, steep_createdAt = now e\<rparr>) \<and>
              s' = s\<lparr>steeps := store_set (uuid e)
                     \<lparr>steep_id = uuid e, brewId = p,
                      steepNumber = Suc (length (steeps_of p s)),
                      durationSeconds = cs_durationSeconds d, rating = cs_rating d,
                      steep_notes = cs_notes d, steep_createdAt = now e\<rparr> (steeps s)\<rparr>"
    then obtain st where st: "brewId st = p" "steepNumber st = Suc (length (steeps_of p s))"
      and s': "s' = s\<lparr>steeps := store_set (uuid e) st (steeps s)\<rparr>"
      by force
    have app': "steeps s' = steeps s @ [(uuid e, st)]"
      using fresh by (simp add: s' store_set_fresh)
    have 1: "distinct (map fst (steeps s'))"
      using d fresh by (simp add: app' store_has_def)
    have 2: "map steepNumber (steeps_of i s') = [1..<Suc (length (steeps_of i s'))]" for i
      using n st by (simp add: steeps_of_def store_values_def app')
    from 1 2 app show ?thesis by simp
  qed
next
  case (DELETE_brew p)
  obtain res s' where rs: "delete_brew p s = (res, s')" by (cases "delete_brew p s")
  then have app: "snd (createApp e r s) = s'" by (simp add: DELETE_brew createApp_def)
  from rs have "s' = s \<or> steeps s' = delete_steeps_of p (steeps s) (steeps s)"
    by (auto simp: delete_brew_def UuidParamSchema_def split: zod.splits if_splits)
  then show ?thesis
  proof
    assume "s' = s" with app d n show ?thesis by simp
  next
    assume "steeps s' = delete_steeps_of p (steeps s) (steeps s)"
    then have eq: "steeps s' = filter (\<lambda>entry. brewId (snd entry) \<noteq> p) (steeps s)"
      using d by (simp add: cascade_keeps_others)
    have 1: "distinct (map fst (steeps s'))"
      using d by (simp add: eq distinct_map_filter)
    have 2: "map steepNumber (steeps_of i s') = [1..<Suc (length (steeps_of i s'))]" for i
    proof (cases "i = p")
      case True
      have "steeps_of i s' = []"
        by (auto simp: steeps_of_def store_values_def eq True filter_empty_conv)
      then show ?thesis by simp
    next
      case False
      have "steeps_of i s' = steeps_of i s"
        using False
        by (auto simp: steeps_of_def store_values_def eq filter_map comp_def
              intro!: arg_cong[where f="map snd"] filter_cong)
      with n show ?thesis by simp
    qed
    from 1 2 app show ?thesis by simp
  qed
qed (use d n steeps_unchanged[of r e s] in \<open>simp_all add: steeps_of_def\<close>)

lemma numbering_run:
  assumes "distinct (map fst (steeps s))"
    and "\<forall>i. map steepNumber (steeps_of i s) = [1..<Suc (length (steeps_of i s))]"
    and "fresh_steep_ids s evs"
  shows "distinct (map fst (steeps (run s evs))) \<and>
         (\<forall>i. map steepNumber (steeps_of i (run s evs)) =
               [1..<Suc (length (steeps_of i (run s evs)))])"
  using assms
proof (induction evs arbitrary: s)
  case Nil
  then show ?case by simp
next
  case (Cons ev evs)
  obtain e r where ev: "ev = (e, r)" by (cases ev)
  from Cons.prems(3) have f: "creates_steep r \<longrightarrow> \<not> store_has (steeps s) (uuid e)"
    and rest: "fresh_steep_ids (snd (createApp e r s)) evs"
    by (simp_all add: ev)
  from numbering_step[OF Cons.prems(1,2) f]
  have "distinct (map fst (steeps (snd (createApp e r s))))"
    and "\<forall>i. map steepNumber (steeps_of i (snd (createApp e r s))) =
               [1..<Suc (length (steeps_of i (snd (createApp e r s))))]"
    by blast+
  from Cons.IH[OF this rest] show ?case by (simp add: ev)
qed

text \<open>
  Claim C2. In every state that a run of requests reaches from the empty stores, with
  \<open>uuidv4()\<close> returning an unused steep id at each creation, the steeps of a brew, taken in
  creation order, carry the numbers 1, 2, ..., N: the k-th has \<open>steepNumber = k\<close>. The next
  steep created under the brew is appended as number N + 1.
\<close>

theorem steep_numbering:
  assumes "fresh_steep_ids empty_state evs" and "s = run empty_state evs"
  shows "map steepNumber (steeps_of i s) = [1..<Suc (length (steeps_of i s))] \<and>
         (\<forall>k. 1 \<le> k \<and> k \<le> length (steeps_of i s) \<longrightarrow>
              steepNumber (steeps_of i s ! (k - 1)) = k) \<and>
         (\<not> store_has (steeps s) (uuid e) \<and>
          createApp e (POST_brew_steeps i b) s = (Response 201 (SteepBody st), s') \<longrightarrow>
            steepNumber st = Suc (length (steeps_of i s)) \<and>
            steeps_of i s' = steeps_of i s @ [st])"
proof -
  have "distinct (map fst (steeps empty_state))"
    and "\<forall>i. map steepNumber (steeps_of i empty_state) =
             [1..<Suc (length (steeps_of i empty_state))]"
    by (simp_all add: empty_state_def steeps_of_def store_values_def)
  from numbering_run[OF this assms(1)] assms(2)
  have 1: "map steepNumber (steeps_of i s) = [1..<Suc (length (steeps_of i s))]"
    by simp
  have 2: "steepNumber (steeps_of i s ! (k - 1)) = k"
    if "1 \<le> k \<and> k \<le> length (steeps_of i s)" for k
  proof -
    from that have lt: "k - 1 < length (steeps_of i s)" by arith
    then have "steepNumber (steeps_of i s ! (k - 1)) = map steepNumber (steeps_of i s) ! (k - 1)"
      by simp
    also have "\<dots> = [1..<Suc (length (steeps_of i s))] ! (k - 1)" by (simp only: 1)
    also have "\<dots> = k" using that lt by (simp add: nth_upt del: upt_Suc)
    finally show ?thesis .
  qed
  have 3: "steepNumber st = Suc (length (steeps_of i s)) \<and>
           steeps_of i s' = steeps_of i s @ [st]"
    if h: "\<not> store_has (steeps s) (uuid e) \<and>
        createApp e (POST_brew_steeps i b) s = (Response 201 (SteepBody st), s')"
  proof -
    from h have rs: "post_brew_steeps e i b s = (Response 201 (SteepBody st), s')"
      by (simp add: createApp_def)
    from post_brew_steeps_cases[OF rs]
    have st: "brewId st = i" "steepNumber st = Suc (length (steeps_of i s))"
      and s': "s' = s\<lparr>steeps := store_set (uuid e) st (steeps s)\<rparr>"
      by auto
    from h have "steeps s' = steeps s @ [(uuid e, st)]"
      by (simp add: s' store_set_fresh)
    then show ?thesis using st by (simp add: steeps_of_def store_values_def)
  qed
  from 1 2 3 show ?thesis by blast
qed

theorem steep_numbering_witness:
  "fresh_steep_ids empty_state sample_session \<and>
   sample_state = run empty_state sample_session \<and>
   map steepNumber (steeps_of brew_1 sample_state) = [1, 2] \<and>
   \<not> store_has (steeps sample_state) (uuid later) \<and>
   (\<exists>st s'. createApp later (POST_brew_steeps brew_1 (JObj [(''durationSeconds'', JNum 30)]))
              sample_state = (Response 201 (SteepBody st), s') \<and>
            steepNumber st = 3 \<and>
            map steepNumber (steeps_of brew_1 s') = [1, 2, 3])"
proof -
  let ?body = "JObj [(''durationSeconds'', JNum 30)]"
  let ?st = "\<lparr>steep_id = unknown_id, brewId = brew_1, steepNumber = 3, durationSeconds = 30,
              rating = None, steep_notes = None, steep_createdAt = 9\<rparr>"
  let ?s' = "sample_state\<lparr>steeps := steeps sample_state @ [(unknown_id, ?st)]\<rparr>"
  have h2: "sample_state = run empty_state sample_session"
    by (simp add: sample_session_state)
  have len: "length (steeps_of brew_1 sample_state) = 2"
    by (simp add: steeps_of_def store_values_def sample_state_def first_steep_def
          second_steep_def)
  have fresh: "\<not> store_has (steeps sample_state) (uuid later)"
    by (simp add: later_def sample_state_def store_has_def sample_ids_differ)
  have app: "createApp later (POST_brew_steeps brew_1 ?body) sample_state =
               (Response 201 (SteepBody ?st), ?s')"
    by (simp add: createApp_def post_brew_steeps_def UuidParamSchema_def sample_ids
          sample_bodies Let_def later_def sample_state_def store_has_def store_values_def
          first_steep_def second_steep_def sample_ids_differ)
  note c = steep_numbering[OF sample_session_fresh h2, of brew_1 later ?body ?st ?s']
  from c have a: "map steepNumber (steeps_of brew_1 sample_state) =
                    [1..<Suc (length (steeps_of brew_1 sample_state))]"
    by (rule conjunct1)
  then have a': "map steepNumber (steeps_of brew_1 sample_state) = [1, 2]"
    by (simp add: len upt_rec)
  from c fresh app have b: "steepNumber ?st = Suc (length (steeps_of brew_1 sample_state)) \<and>
      steeps_of brew_1 ?s' = steeps_of brew_1 sample_state @ [?st]"
    by (elim conjE) (erule mp, rule conjI)
  then have b1: "steepNumber ?st = 3" by simp
  from b a' have b2: "map steepNumber (steeps_of brew_1 ?s') = [1, 2, 3]" by simp
  from app b1 b2 have "\<exists>st s'. createApp later (POST_brew_steeps brew_1 ?body) sample_state =
              (Response 201 (SteepBody st), s') \<and> steepNumber st = 3 \<and>
            map steepNumber (steeps_of brew_1 s') = [1, 2, 3]"
    by (intro exI conjI)
  with sample_session_fresh h2 a' fresh show ?thesis by (intro conjI)
qed

section \<open>Creating a brew\<close>

text \<open>
  Claim C3, as stated, asks for the message "Tea not found" whenever the \<open>teaId\<close> of a valid
  body names no tea. The handler looks the teapot up first: with the sample body on the
  empty stores, where neither the teapot nor the tea exists, the answer is "Teapot not
  found".
\<close>

theorem tea_not_found_counterexample:
  "CreateBrewSchema brew_body =
     Inr \<lparr>cb_teapotId = pot_1, cb_teaId = tea_1, cb_waterTempCelsius = None, cb_notes = None\<rparr> \<and>
   is_uuid tea_1 \<and> store_get (teas empty_state) tea_1 = None \<and>
   createApp later (POST_brews brew_body) empty_state \<noteq>
     (Response 400 (ErrorBody ''VALIDATION_ERROR'' ''Tea not found'' None), empty_state) \<and>
   createApp later (POST_brews brew_body) empty_state =
     (Response 400 (ErrorBody ''VALIDATION_ERROR'' ''Teapot not found'' None), empty_state)"
  by (simp add: sample_bodies sample_ids createApp_def post_brews_def validation_error_def
        store_get_def empty_state_def)

text \<open>
  Claim C3, amended. For a body that passes \<open>CreateBrewSchema\<close> (so both ids are well-formed
  UUIDs): if the teapot id names no teapot, the answer is 400 \<open>VALIDATION_ERROR\<close> "Teapot not
  found", whether the tea exists or not; if the teapot exists and the tea id names no tea,
  the answer is 400 \<open>VALIDATION_ERROR\<close> "Tea not found". Neither is a 404, and the stores are
  left as they were.
\<close>

theorem post_brews_missing_reference:
  assumes "CreateBrewSchema body = Inr d"
  shows "is_uuid (cb_teapotId d) \<and> is_uuid (cb_teaId d) \<and>
         (store_get (teapots s) (cb_teapotId d) = None \<longrightarrow>
            createApp e (POST_brews body) s =
              (Response 400 (ErrorBody ''VALIDATION_ERROR'' ''Teapot not found'' None), s)) \<and>
         (store_get (teapots s) (cb_teapotId d) \<noteq> None \<and>
          store_get (teas s) (cb_teaId d) = None \<longrightarrow>
            createApp e (POST_brews body) s =
              (Response 400 (ErrorBody ''VALIDATION_ERROR'' ''Tea not found'' None), s))"
  using assms CreateBrewSchema_Inr[OF assms]
  by (auto simp: createApp_def post_brews_def validation_error_def)

theorem post_brews_missing_reference_witness:
  "CreateBrewSchema brew_body =
     Inr \<lparr>cb_teapotId = pot_1, cb_teaId = tea_1, cb_waterTempCelsius = None, cb_notes = None\<rparr> \<and>
   store_get (teapots empty_state) pot_1 = None \<and>
   createApp later (POST_brews brew_body) empty_state =
     (Response 400 (ErrorBody ''VALIDATION_ERROR'' ''Teapot not found'' None), empty_state) \<and>
   store_get (teapots (sample_state\<lparr>teas := []\<rparr>)) pot_1 \<noteq> None \<and>
   store_get (teas (sample_state\<lparr>teas := []\<rparr>)) tea_1 = None \<and>
   createApp later (POST_brews brew_body) (sample_state\<lparr>teas := []\<rparr>) =
     (Response 400 (ErrorBody ''VALIDATION_ERROR'' ''Tea not found'' None),
      sample_state\<lparr>teas := []\<rparr>)"
proof -
  let ?d = "\<lparr>cb_teapotId = pot_1, cb_teaId = tea_1, cb_waterTempCelsius = None,
             cb_notes = None\<rparr>"
  have h: "CreateBrewSchema brew_body = Inr ?d" by (rule sample_bodies(3))
  have a: "store_get (teapots empty_state) (cb_teapotId ?d) = None"
    by (simp add: store_get_def empty_state_def)
  have b: "store_get (teapots (sample_state\<lparr>teas := []\<rparr>)) (cb_teapotId ?d) \<noteq> None \<and>
           store_get (teas (sample_state\<lparr>teas := []\<rparr>)) (cb_teaId ?d) = None"
    by (simp add: store_get_def sample_state_def)
  note c1 = post_brews_missing_reference[OF h, of empty_state later]
  note c2 = post_brews_missing_reference[OF h, of "sample_state\<lparr>teas := []\<rparr>" later]
  from c1[THEN conjunct2, THEN conjunct2, THEN conjunct1] a
  have 1: "createApp later (POST_brews brew_body) empty_state =
     (Response 400 (ErrorBody ''VALIDATION_ERROR'' ''Teapot not found'' None), empty_state)"
    by (rule mp)
  from c2[THEN conjunct2, THEN conjunct2, THEN conjunct2] b
  have 2: "createApp later (POST_brews brew_body) (sample_state\<lparr>teas := []\<rparr>) =
     (Response 400 (ErrorBody ''VALIDATION_ERROR'' ''Tea not found'' None),
      sample_state\<lparr>teas := []\<rparr>)"
    by (rule mp)
  from a b have a': "store_get (teapots empty_state) pot_1 = None"
    and b1: "store_get (teapots (sample_state\<lparr>teas := []\<rparr>)) pot_1 \<noteq> None"
    and b2: "store_get (teas (sample_state\<lparr>teas := []\<rparr>)) tea_1 = None"
    by simp_all
  from h a' 1 b1 b2 2 show ?thesis by (intro conjI)
qed

text \<open>
  Claim C9. A \<open>POST /brews\<close> with a valid body whose teapot and tea both exist answers 201
  with the brew it stores under the new id: status "preparing", the water temperature of the
  request when the body has one and the tea's \<open>steepTempCelsius\<close> otherwise,
  \<open>startedAt = createdAt = updatedAt\<close> (the clock reading of the request) and no
  \<open>completedAt\<close>.
\<close>

theorem post_brews_created:
  assumes "CreateBrewSchema body = Inr d"
    and "store_get (teapots s) (cb_teapotId d) = Some teapot"
    and "store_get (teas s) (cb_teaId d) = Some tea"
  shows "\<exists>brew fs.
           createApp e (POST_brews body) s =
             (Response 201 (BrewBody brew), s\<lparr>brews := store_set (uuid e) brew (brews s)\<rparr>) \<and>
           body = JObj fs \<and>
           brew_id brew = uuid e \<and>
           js_get fs ''teapotId'' = Some (JStr (brew_teapotId brew)) \<and>
           js_get fs ''teaId'' = Some (JStr (brew_teaId brew)) \<and>
           brew_status brew = ''preparing'' \<and>
           (case js_get fs ''waterTempCelsius'' of
              None \<Rightarrow> brew_waterTempCelsius brew = tea_steepTempCelsius tea
            | Some j \<Rightarrow> j = JNum (of_int (brew_waterTempCelsius brew))) \<and>
           brew_startedAt brew = now e \<and> brew_createdAt brew = now e \<and>
           brew_updatedAt brew = now e \<and> brew_completedAt brew = None"
  using assms CreateBrewSchema_Inr[OF assms(1)]
  by (auto simp: createApp_def post_brews_def Let_def split: option.splits)

theorem post_brews_created_witness:
  "CreateBrewSchema brew_body =
     Inr \<lparr>cb_teapotId = pot_1, cb_teaId = tea_1, cb_waterTempCelsius = None, cb_notes = None\<rparr> \<and>
   store_get (teapots sample_state) pot_1 = Some sample_teapot \<and>
   store_get (teas sample_state) tea_1 = Some sample_tea \<and>
   (\<exists>brew. fst (createApp later (POST_brews brew_body) sample_state) =
              Response 201 (BrewBody brew) \<and>
           brew_status brew = ''preparing'' \<and> brew_waterTempCelsius brew = 75 \<and>
           brew_startedAt brew = 9 \<and> brew_createdAt brew = 9 \<and> brew_updatedAt brew = 9 \<and>
           brew_completedAt brew = None)"
proof -
  let ?d = "\<lparr>cb_teapotId = pot_1, cb_teaId = tea_1, cb_waterTempCelsius = None,
             cb_notes = None\<rparr>"
  have h: "CreateBrewSchema brew_body = Inr ?d" by (rule sample_bodies(3))
  have a: "store_get (teapots sample_state) (cb_teapotId ?d) = Some sample_teapot"
    by (simp add: store_get_def sample_state_def)
  have b: "store_get (teas sample_state) (cb_teaId ?d) = Some sample_tea"
    by (simp add: store_get_def sample_state_def)
  from post_brews_created[OF h a b, of later]
  have "\<exists>brew. fst (createApp later (POST_brews brew_body) sample_state) =
              Response 201 (BrewBody brew) \<and>
           brew_status brew = ''preparing'' \<and> brew_waterTempCelsius brew = 75 \<and>
           brew_startedAt brew = 9 \<and> brew_createdAt brew = 9 \<and> brew_updatedAt brew = 9 \<and>
           brew_completedAt brew = None"
    by (auto simp: brew_body_def js_get_def later_def sample_tea_def)
  with h a b show ?thesis by simp
qed

section \<open>Creating a steep under a brew that does not exist\<close>

text \<open>
  Claim C4. A \<open>POST /brews/:brewId/steeps\<close> whose \<open>brewId\<close> is a well-formed UUID that names no
  brew answers 404 \<open>NOT_FOUND\<close> "Brew not found", whatever the body is, and changes nothing
  (where a brew creation that names a missing teapot or tea answers 400).
\<close>

theorem post_steep_unknown_brew:
  assumes "is_uuid p" and "\<not> store_has (brews s) p"
  shows "createApp e (POST_brew_steeps p body) s =
           (Response 404 (ErrorBody ''NOT_FOUND'' ''Brew not found'' None), s)"
  using assms
  by (simp add: createApp_def post_brew_steeps_def UuidParamSchema_def not_found_def)

theorem post_steep_unknown_brew_witness:
  "is_uuid unknown_id \<and> \<not> store_has (brews sample_state) unknown_id \<and>
   createApp later (POST_brew_steeps unknown_id (JObj [(''durationSeconds'', JNum 30)]))
     sample_state =
     (Response 404 (ErrorBody ''NOT_FOUND'' ''Brew not found'' None), sample_state)"
proof -
  have h1: "is_uuid unknown_id" by (rule sample_ids(6))
  have h2: "\<not> store_has (brews sample_state) unknown_id"
    by (simp add: store_has_def sample_state_def sample_ids_differ)
  from post_steep_unknown_brew[OF h1 h2] h1 h2 show ?thesis by simp
qed

section \<open>Reading a brew\<close>

text \<open>
  Claim C8. \<open>GET /brews/:id\<close> on a brew that exists answers 200: with the teapot and the tea
  inlined when both are still in their stores, and with the bare brew, and no error, when
  either of them is gone.
\<close>

theorem get_brew_expansion:
  assumes "is_uuid i" and "store_get (brews s) i = Some b"
  shows "(\<forall>teapot tea.
            store_get (teapots s) (brew_teapotId b) = Some teapot \<and>
            store_get (teas s) (brew_teaId b) = Some tea \<longrightarrow>
              createApp e (GET_brew i) s = (Response 200 (BrewWithDetails b teapot tea), s)) \<and>
         (store_get (teapots s) (brew_teapotId b) = None \<or>
          store_get (teas s) (brew_teaId b) = None \<longrightarrow>
              createApp e (GET_brew i) s = (Response 200 (BrewBody b), s))"
  using assms
  by (auto simp: createApp_def get_brew_def UuidParamSchema_def split: option.splits)

theorem get_brew_expansion_witness:
  "is_uuid brew_1 \<and> store_get (brews sample_state) brew_1 = Some sample_brew \<and>
   createApp later (GET_brew brew_1) sample_state =
     (Response 200 (BrewWithDetails sample_brew sample_teapot sample_tea), sample_state) \<and>
   store_get (brews (sample_state\<lparr>teas := []\<rparr>)) brew_1 = Some sample_brew \<and>
   store_get (teas (sample_state\<lparr>teas := []\<rparr>)) (brew_teaId sample_brew) = None \<and>
   createApp later (GET_brew brew_1) (sample_state\<lparr>teas := []\<rparr>) =
     (Response 200 (BrewBody sample_brew), sample_state\<lparr>teas := []\<rparr>)"
proof -
  have h1: "is_uuid brew_1" by (rule sample_ids(3))
  have h2: "store_get (brews sample_state) brew_1 = Some sample_brew"
    by (simp add: store_get_def sample_state_def)
  have h3: "store_get (brews (sample_state\<lparr>teas := []\<rparr>)) brew_1 = Some sample_brew"
    by (simp add: store_get_def sample_state_def)
  have a: "store_get (teapots sample_state) (brew_teapotId sample_brew) = Some sample_teapot \<and>
           store_get (teas sample_state) (brew_teaId sample_brew) = Some sample_tea"
    by (simp add: store_get_def sample_state_def sample_brew_def)
  have b: "store_get (teas (sample_state\<lparr>teas := []\<rparr>)) (brew_teaId sample_brew) = None"
    by (simp add: store_get_def)
  from get_brew_expansion[OF h1 h2, of later] a
  have 1: "createApp later (GET_brew brew_1) sample_state =
     (Response 200 (BrewWithDetails sample_brew sample_teapot sample_tea), sample_state)"
    by simp
  from get_brew_expansion[OF h1 h3, of later] b
  have 2: "createApp later (GET_brew brew_1) (sample_state\<lparr>teas := []\<rparr>) =
     (Response 200 (BrewBody sample_brew), sample_state\<lparr>teas := []\<rparr>)"
    by simp
  from h1 h2 1 h3 b 2 show ?thesis by (intro conjI)
qed

section \<open>Errors leave the stores alone\<close>

lemma write_handlers_atomic:
  assumes "res_status res = 400 \<or> res_status res = 404"
  shows "post_teapots e b s = (res, s') \<Longrightarrow> s' = s"
    and "put_teapot e p b s = (res, s') \<Longrightarrow> s' = s"
    and "patch_teapot e p b s = (res, s') \<Longrightarrow> s' = s"
    and "delete_teapot p s = (res, s') \<Longrightarrow> s' = s"
    and "post_teas e b s = (res, s') \<Longrightarrow> s' = s"
    and "put_tea e p b s = (res, s') \<Longrightarrow> s' = s"
    and "patch_tea e p b s = (res, s') \<Longrightarrow> s' = s"
    and "delete_tea p s = (res, s') \<Longrightarrow> s' = s"
    and "post_brews e b s = (res, s') \<Longrightarrow> s' = s"
    and "patch_brew e p b s = (res, s') \<Longrightarrow> s' = s"
    and "delete_brew p s = (res, s') \<Longrightarrow> s' = s"
    and "post_brew_steeps e p b s = (res, s') \<Longrightarrow> s' = s"
  using assms
  by (auto simp: post_teapots_def put_teapot_def patch_teapot_def delete_teapot_def
        post_teas_def put_tea_def patch_tea_def delete_tea_def
        post_brews_def patch_brew_def delete_brew_def post_brew_steeps_def Let_def
        split: sum.splits zod.splits option.splits if_splits)

text \<open>
  Claim C10. Whatever the request, when the answer has status 400 or 404 the four stores
  are exactly what they were before it: every error branch of every handler returns before
  the first \<open>set\<close> or \<open>delete\<close>.
\<close>

theorem error_responses_leave_stores:
  assumes "createApp e r s = (res, s')"
    and "res_status res = 400 \<or> res_status res = 404"
  shows "s' = s"
proof (cases r)
  case (POST_teapots b) with assms write_handlers_atomic(1)[of res e b s s'] show ?thesis
    by (simp add: createApp_def)
next
  case (PUT_teapot p b) with assms write_handlers_atomic(2)[of res e p b s s'] show ?thesis
    by (simp add: createApp_def)
next
  case (PATCH_teapot p b) with assms write_handlers_atomic(3)[of res e p b s s'] show ?thesis
    by (simp add: createApp_def)
next
  case (DELETE_teapot p) with assms write_handlers_atomic(4)[of res p s s'] show ?thesis
    by (simp add: createApp_def)
next
  case (POST_teas b) with assms write_handlers_atomic(5)[of res e b s s'] show ?thesis
    by (simp add: createApp_def)
next
  case (PUT_tea p b) with assms write_handlers_atomic(6)[of res e p b s s'] show ?thesis
    by (simp add: createApp_def)
next
  case (PATCH_tea p b) with assms write_handlers_atomic(7)[of res e p b s s'] show ?thesis
    by (simp add: createApp_def)
next
  case (DELETE_tea p) with assms write_handlers_atomic(8)[of res p s s'] show ?thesis
    by (simp add: createApp_def)
next
  case (POST_brews b) with assms write_handlers_atomic(9)[of res e b s s'] show ?thesis
    by (simp add: createApp_def)
next
  case (PATCH_brew p b) with assms write_handlers_atomic(10)[of res e p b s s'] show ?thesis
    by (simp add: createApp_def)
next
  case (DELETE_brew p) with assms write_handlers_atomic(11)[of res p s s'] show ?thesis
    by (simp add: createApp_def)
next
  case (POST_brew_steeps p b) with assms write_handlers_atomic(12)[of res e p b s s'] show ?thesis
    by (simp add: createApp_def)
qed (use assms in \<open>auto simp: createApp_def reading_def Let_def split: sum.splits\<close>)

theorem error_responses_leave_stores_witness:
  "res_status (fst (createApp later (PATCH_teapot pot_1 (JObj [(''capacityMl'', JNum 0)]))
                      sample_state)) = 400 \<and>
   snd (createApp later (PATCH_teapot pot_1 (JObj [(''capacityMl'', JNum 0)])) sample_state) =
     sample_state \<and>
   res_status (fst (createApp later (DELETE_brew unknown_id) sample_state)) = 404 \<and>
   snd (createApp later (DELETE_brew unknown_id) sample_state) = sample_state"
proof -
  let ?r1 = "PATCH_teapot pot_1 (JObj [(''capacityMl'', JNum 0)])"
  let ?r2 = "DELETE_brew unknown_id"
  have p: "PatchTeapotSchema (JObj [(''capacityMl'', JNum 0)]) = Inl [''capacityMl'']"
    by (simp add: PatchTeapotSchema_def js_get_def z_optional_def z_number_int_def
          isInteger_def bad_def)
  have a: "res_status (fst (createApp later ?r1 sample_state)) = 400"
    by (simp add: createApp_def patch_teapot_def UuidParamSchema_def sample_ids store_get_def
          sample_state_def p validation_error_def)
  have b: "res_status (fst (createApp later ?r2 sample_state)) = 404"
    by (simp add: createApp_def delete_brew_def UuidParamSchema_def sample_ids store_has_def
          sample_state_def not_found_def sample_ids_differ)
  have 1: "snd (createApp later ?r1 sample_state) = sample_state"
    by (rule error_responses_leave_stores[of later ?r1 sample_state
          "fst (createApp later ?r1 sample_state)"]) (simp_all add: a)
  have 2: "snd (createApp later ?r2 sample_state) = sample_state"
    by (rule error_responses_leave_stores[of later ?r2 sample_state
          "fst (createApp later ?r2 sample_state)"]) (simp_all add: b)
  from a 1 b 2 show ?thesis by (intro conjI)
qed

section \<open>Pagination\<close>



text \<open>Each list handler answers a valid query with \<open>paginate\<close> of its filtered items, at the
  page and limit of the parsed query (which \<open>query_ranges\<close> bounds).\<close>

lemma list_handlers_paginate:
  "TeapotQuerySchema q = Inr tq \<Longrightarrow>
     get_teapots q s =
       Inr (Response 200 (TeapotList (paginate
         (filter_if (tq_style tq) pot_style
            (filter_if (tq_material tq) pot_material (store_values (teapots s))))
         (pq_page tq) (pq_limit tq))))"
  "TeaQuerySchema q = Inr aq \<Longrightarrow>
     get_teas q s =
       Inr (Response 200 (TeaList (paginate
         (filter_if (aq_caffeineLevel aq) tea_caffeineLevel
            (filter_if (aq_type aq) tea_type (store_values (teas s))))
         (pq_page aq) (pq_limit aq))))"
  "BrewQuerySchema q = Inr bq \<Longrightarrow>
     get_brews q s =
       Inr (Response 200 (BrewList (paginate
         (filter_if (bq_teaId bq) brew_teaId
            (filter_if (bq_teapotId bq) brew_teapotId
               (filter_if (bq_status bq) brew_status (store_values (brews s)))))
         (pq_page bq) (pq_limit bq))))"
  "PaginationQuerySchema q = Inr pq \<Longrightarrow> is_uuid p \<Longrightarrow> store_has (brews s) p \<Longrightarrow>
     get_brew_steeps p q s =
       Inr (Response 200 (SteepList (paginate
         (sort_key steepNumber (filter (\<lambda>st. brewId st = p) (store_values (steeps s))))
         (pq_page pq) (pq_limit pq))))"
  "PaginationQuerySchema q = Inr pq \<Longrightarrow> is_uuid p \<Longrightarrow> store_has (teapots s) p \<Longrightarrow>
     getTeapotBrews p q s =
       Inr (Response 200 (BrewList (paginate
         (filter (\<lambda>b. brew_teapotId b = p) (store_values (brews s)))
         (pq_page pq) (pq_limit pq))))"
  by (simp_all add: get_teapots_def get_teas_def get_brews_def get_brew_steeps_def
        getTeapotBrews_def Let_def UuidParamSchema_def)



section \<open>Partial update\<close>



section \<open>A list request with an invalid query\<close>



end
